theory Spec2Isabelle
  imports Main "HOL-Library.Sublist"
begin

section \<open>Text\<close>

text \<open>
  A Python \<open>str\<close> that reaches the agent from outside is modelled as a \<open>string\<close>, one
  \<open>char\<close> per code point, so the model covers input whose code points lie below 256
  (ASCII and Latin-1) and \<open>length\<close> is Python's \<open>len\<close>.  The character classes below are
  those of Python 3 on that range.  Two operations, \<open>str.upper\<close> and \<open>str.capitalize\<close>,
  lead out of the range; their results are lists of code points (\<open>points\<close>).
\<close>

type_synonym points = "nat list"

definition code :: "char \<Rightarrow> nat" where
  "code c = of_char c"

definition points_of :: "string \<Rightarrow> points" where
  "points_of s = map code s"

text \<open>\<open>str.isspace\<close>, which is also what \<open>str.strip()\<close> removes and what \<open>\s\<close> matches.\<close>

definition is_space :: "char \<Rightarrow> bool" where
  "is_space c = (let n = code c in
     (9 \<le> n \<and> n \<le> 13) \<or> (28 \<le> n \<and> n \<le> 32) \<or> n = 133 \<or> n = 160)"

text \<open>\<open>[a-zA-Z]\<close>.\<close>

definition is_ascii_letter :: "char \<Rightarrow> bool" where
  "is_ascii_letter c = (let n = code c in (65 \<le> n \<and> n \<le> 90) \<or> (97 \<le> n \<and> n \<le> 122))"

text \<open>\<open>\d\<close>: the decimal digits; below 256 these are \<open>0\<close> to \<open>9\<close> only.\<close>

definition is_digit :: "char \<Rightarrow> bool" where
  "is_digit c = (let n = code c in 48 \<le> n \<and> n \<le> 57)"

text \<open>\<open>str.lower()\<close> on one character.\<close>

definition lower_char :: "char \<Rightarrow> char" where
  "lower_char c = (let n = code c in
     if (65 \<le> n \<and> n \<le> 90) \<or> (192 \<le> n \<and> n \<le> 222 \<and> n \<noteq> 215) then char_of (n + 32) else c)"

definition lower :: "string \<Rightarrow> string" where
  "lower s = map lower_char s"

definition lstrip :: "string \<Rightarrow> string" where
  "lstrip s = dropWhile is_space s"

definition rstrip :: "string \<Rightarrow> string" where
  "rstrip s = rev (dropWhile is_space (rev s))"

definition strip :: "string \<Rightarrow> string" where
  "strip s = rstrip (lstrip s)"

section \<open>The session store (\<open>app/state.py\<close>)\<close>

text \<open>One transcript entry, the dictionary \<open>{"role": role, "content": content}\<close>.\<close>

record turn =
  role :: string
  content :: string

text \<open>A ticket as the helpdesk lists it; only the keys the agent reads.\<close>

record ticket =
  t_id :: int
  t_status :: int
  t_priority :: int
  t_subject :: string
  t_description :: "string option"

text \<open>
  The per-call dictionary.  A key that some code path leaves out is an \<open>option\<close> field
  (\<open>None\<close> for a missing key or a stored \<open>None\<close>, which \<open>dict.get\<close> does not tell apart);
  \<open>from_key\<close> is the key \<open>"from"\<close>.  Keys written but never read by the modelled code
  (\<open>transfer_confirmed\<close>, \<open>awaiting_confirmation\<close>, \<open>status\<close>) are left out.
\<close>

record session =
  history :: "turn list"
  processing :: bool
  ticket_id :: "string option"
  phone :: string
  sentiment :: "points option"
  transfer_requested :: bool
  bot_number :: "string option"
  contact_name :: "string option"
  contact_id :: "int option"
  recent_tickets :: "ticket list"
  lookup_done :: bool
  region_url :: "string option"
  from_key :: "string option"

text \<open>A call id is whatever \<open>data.get("uuid")\<close> gave: a string or \<open>None\<close>.\<close>

type_synonym call_id = "string option"

type_synonym store = "call_id \<rightharpoonup> session"

text \<open>The defaults \<open>get_call_state\<close> creates for an unknown call id.\<close>

definition default_session :: session where
  "default_session = \<lparr> history = [], processing = False, ticket_id = None, phone = [],
     sentiment = Some (points_of ''Neutral''), transfer_requested = False, bot_number = None,
     contact_name = None, contact_id = None, recent_tickets = [], lookup_done = False,
     region_url = None, from_key = None \<rparr>"

text \<open>\<open>get_call_state\<close> returns the session and the store, which it may have extended.\<close>

definition get_call_state :: "store \<Rightarrow> call_id \<Rightarrow> session \<times> store" where
  "get_call_state calls call_uuid =
     (case calls call_uuid of
        None \<Rightarrow> (default_session, calls(call_uuid \<mapsto> default_session))
      | Some st \<Rightarrow> (st, calls))"

definition set_call_state :: "store \<Rightarrow> call_id \<Rightarrow> session \<Rightarrow> store" where
  "set_call_state calls call_uuid st = calls(call_uuid \<mapsto> st)"

text \<open>The slice \<open>xs[-n:]\<close> for \<open>n > 0\<close>.\<close>

definition last_n :: "nat \<Rightarrow> 'a list \<Rightarrow> 'a list" where
  "last_n n xs = drop (length xs - n) xs"

definition append_history :: "store \<Rightarrow> call_id \<Rightarrow> string \<Rightarrow> string \<Rightarrow> store" where
  "append_history calls call_uuid r c =
     (let (st, calls1) = get_call_state calls call_uuid;
          st1 = st\<lparr>history := history st @ [\<lparr>role = r, content = c\<rparr>]\<rparr>;
          st2 = st1\<lparr>history := last_n 50 (history st1)\<rparr>
      in set_call_state calls1 call_uuid st2)"

text \<open>A sequence of appends to one call, in order.\<close>

fun append_all :: "store \<Rightarrow> call_id \<Rightarrow> turn list \<Rightarrow> store" where
  "append_all calls call_uuid [] = calls"
| "append_all calls call_uuid (t # ts) =
     append_all (append_history calls call_uuid (role t) (content t)) call_uuid ts"

text \<open>The transcript stored for a call; a call without a session has none.\<close>

definition history_of :: "store \<Rightarrow> call_id \<Rightarrow> turn list" where
  "history_of calls call_uuid = (case calls call_uuid of None \<Rightarrow> [] | Some st \<Rightarrow> history st)"

subsection \<open>The older agent (\<open>voice-agent/app/state.py\<close>)\<close>

text \<open>
  The older agent has its own \<open>ConversationState\<close>: a session is created with four keys,
  and \<open>append_history\<close> keeps the last 12 entries.
\<close>

record legacy_session =
  l_history :: "turn list"
  l_processing :: bool
  l_ticket_id :: "string option"
  l_phone :: string

type_synonym legacy_store = "call_id \<rightharpoonup> legacy_session"

definition legacy_default_session :: legacy_session where
  "legacy_default_session = \<lparr> l_history = [], l_processing = False, l_ticket_id = None, l_phone = [] \<rparr>"

definition legacy_get_call_state :: "legacy_store \<Rightarrow> call_id \<Rightarrow> legacy_session \<times> legacy_store" where
  "legacy_get_call_state calls call_uuid =
     (case calls call_uuid of
        None \<Rightarrow> (legacy_default_session, calls(call_uuid \<mapsto> legacy_default_session))
      | Some st \<Rightarrow> (st, calls))"

definition legacy_set_call_state :: "legacy_store \<Rightarrow> call_id \<Rightarrow> legacy_session \<Rightarrow> legacy_store" where
  "legacy_set_call_state calls call_uuid st = calls(call_uuid \<mapsto> st)"

definition legacy_append_history :: "legacy_store \<Rightarrow> call_id \<Rightarrow> string \<Rightarrow> string \<Rightarrow> legacy_store" where
  "legacy_append_history calls call_uuid r c =
     (let (st, calls1) = legacy_get_call_state calls call_uuid;
          st1 = st\<lparr>l_history := l_history st @ [\<lparr>role = r, content = c\<rparr>]\<rparr>;
          st2 = st1\<lparr>l_history := last_n 12 (l_history st1)\<rparr>
      in legacy_set_call_state calls1 call_uuid st2)"

fun legacy_append_all :: "legacy_store \<Rightarrow> call_id \<Rightarrow> turn list \<Rightarrow> legacy_store" where
  "legacy_append_all calls call_uuid [] = calls"
| "legacy_append_all calls call_uuid (t # ts) =
     legacy_append_all (legacy_append_history calls call_uuid (role t) (content t)) call_uuid ts"

definition legacy_history_of :: "legacy_store \<Rightarrow> call_id \<Rightarrow> turn list" where
  "legacy_history_of calls call_uuid = (case calls call_uuid of None \<Rightarrow> [] | Some st \<Rightarrow> l_history st)"

text \<open>\<open>str(n)\<close> for an integer, and user turns numbered from 0 for the examples.\<close>

fun str_nat :: "nat \<Rightarrow> string" where
  "str_nat n = (if n < 10 then [char_of (48 + n)] else str_nat (n div 10) @ [char_of (48 + n mod 10)])"

declare str_nat.simps [simp del]

definition str_int :: "int \<Rightarrow> string" where
  "str_int i = (if i < 0 then CHR ''-'' # str_nat (nat (- i)) else str_nat (nat i))"

definition numbered_turns :: "nat \<Rightarrow> turn list" where
  "numbered_turns n = map (\<lambda>i. \<lparr>role = ''user'', content = str_nat i\<rparr>) [0..<n]"

section \<open>More text operations\<close>

text \<open>
  \<open>str.upper()\<close> on one character, as code points.  The sharp s (223) becomes \<open>SS\<close>; the
  micro sign (181) and y with diaeresis (255) have their upper-case forms at 924 and 376.
\<close>

definition upper_char :: "char \<Rightarrow> points" where
  "upper_char c = (let n = code c in
     if (97 \<le> n \<and> n \<le> 122) \<or> (224 \<le> n \<and> n \<le> 254 \<and> n \<noteq> 247) then [n - 32]
     else if n = 223 then [83, 83]
     else if n = 181 then [924]
     else if n = 255 then [376]
     else [n])"

definition upper :: "string \<Rightarrow> points" where
  "upper s = concat (map upper_char s)"

text \<open>
  \<open>str.capitalize()\<close>: the first character in title case (the sharp s becomes \<open>Ss\<close>), the
  rest in lower case.
\<close>

definition title_char :: "char \<Rightarrow> points" where
  "title_char c = (if code c = 223 then [83, 115] else upper_char c)"

definition capitalize :: "string \<Rightarrow> points" where
  "capitalize s = (case s of [] \<Rightarrow> [] | c # cs \<Rightarrow> title_char c @ points_of (lower cs))"

text \<open>\<open>s.split(d)\<close> for a one-character separator: never empty.\<close>

fun split_on :: "char \<Rightarrow> string \<Rightarrow> string list" where
  "split_on d [] = [[]]"
| "split_on d (c # cs) =
     (if c = d then [] # split_on d cs
      else (case split_on d cs of [] \<Rightarrow> [[c]] | w # ws \<Rightarrow> (c # w) # ws))"

text \<open>
  Truthiness of an optional string (neither \<open>None\<close> nor empty) and of an optional integer
  (neither \<open>None\<close> nor zero); \<open>nonempty\<close> and \<open>nonzero\<close> give the value when it is truthy.
\<close>

definition nonempty :: "string option \<Rightarrow> string option" where
  "nonempty v = (case v of None \<Rightarrow> None | Some s \<Rightarrow> if s = [] then None else Some s)"

definition nonzero :: "int option \<Rightarrow> int option" where
  "nonzero v = (case v of None \<Rightarrow> None | Some n \<Rightarrow> if n = 0 then None else Some n)"

definition truthy :: "string option \<Rightarrow> bool" where
  "truthy v = (nonempty v \<noteq> None)"

datatype py_error = ValueError

text \<open>
  \<open>int(s)\<close> on a string.  Surrounding whitespace is dropped, a sign may lead, and the
  digits may be grouped by single underscores; anything else raises \<open>ValueError\<close>, and so
  does a number of more than 4300 digits (the interpreter's limit on the conversion).
  The whitespace \<open>int\<close> accepts is narrower than that of \<open>str.strip\<close>: the separators 28
  to 31 are not part of it.
\<close>

definition is_int_space :: "char \<Rightarrow> bool" where
  "is_int_space c = (let n = code c in (9 \<le> n \<and> n \<le> 13) \<or> n = 32 \<or> n = 133 \<or> n = 160)"

fun digits_ok :: "string \<Rightarrow> bool" where
  "digits_ok [] = False"
| "digits_ok [c] = is_digit c"
| "digits_ok (c # d # cs) =
     (is_digit c \<and> (if d = CHR ''_'' then digits_ok cs else digits_ok (d # cs)))"

definition digits_value :: "string \<Rightarrow> int" where
  "digits_value s = foldl (\<lambda>acc c. 10 * acc + (int (code c) - 48)) 0 (filter is_digit s)"

definition py_int :: "string \<Rightarrow> py_error + int" where
  "py_int s =
     (let t = rev (dropWhile is_int_space (rev (dropWhile is_int_space s)));
          (neg, body) = (case t of [] \<Rightarrow> (False, t)
                         | c # r \<Rightarrow> if c = CHR ''-'' then (True, r)
                                    else if c = CHR ''+'' then (False, r) else (False, t))
      in if digits_ok body \<and> length (filter is_digit body) \<le> 4300
         then Inr (if neg then - digits_value body else digits_value body)
         else Inl ValueError)"

section \<open>The background action executor (\<open>app/main.py\<close>)\<close>

text \<open>
  What the agent asks of the reply generator, as \<open>agent_response\<close> is called; the
  temperature is in tenths.
\<close>

record gen_args =
  g_issue :: string
  g_kb :: string
  g_history :: "turn list"
  g_contact_name :: "string option"
  g_recent_tickets :: "ticket list"
  g_active_ticket_id :: "string option"
  g_phone :: "string option"
  g_max_tokens :: nat
  g_temperature :: nat

text \<open>
  Every call to a collaborator is an event, in the order the calls are made.  The hangup
  delay is \<open>min(text_len / 12.0 + 1.2, 20.0)\<close> seconds; the event keeps \<open>text_len\<close>.
\<close>

datatype event =
    Transfer_To_Agent call_id string string "string option"
  | Create_Ticket call_id string "string option" points "int option"
  | Update_Ticket_Status int int
  | Update_Contact_Name int string
  | Create_Contact string string
  | Search_Contact string
  | Get_Latest_Tickets int
  | Sleep_For_Speech nat
  | Hangup_Call call_id "string option"
  | Transcribe string
  | Fetch_Knowledge string
  | Generate gen_args
  | Chat_Completion "turn list" nat nat
  | Inject_Tts call_id string "string option"

text \<open>
  The collaborators whose answers the agent uses.  Each answers a call given the events so
  far, so two calls with the same arguments may be answered differently.
  \<open>create_ticket\<close> gives the new ticket id or \<open>None\<close>; \<open>create_contact\<close> and
  \<open>search_contact_by_phone\<close> give \<open>None\<close> for the empty dictionary of a failure and
  otherwise the contact; \<open>transcribe_whisper\<close> gives the text, \<open>None\<close>, or raises;
  \<open>fetch_combined_knowledge\<close> gives text.  \<open>get_client\<close> says whether \<open>_get_client()\<close>
  returns a client.  \<open>chat_completion\<close> is the request to the language model with the
  messages, \<open>max_tokens\<close> and the temperature: it gives the content of the first choice, or
  raises, and then \<open>Inl\<close> carries the text of the exception.
\<close>

text \<open>A contact as the helpdesk returns it: the keys \<open>id\<close> and \<open>name\<close>.\<close>

record contact =
  c_id :: "int option"
  c_name :: "string option"

record world =
  create_ticket :: "event list \<Rightarrow> call_id \<Rightarrow> string \<Rightarrow> string option \<Rightarrow> points \<Rightarrow> int option
                     \<Rightarrow> string option"
  create_contact :: "event list \<Rightarrow> string \<Rightarrow> string \<Rightarrow> contact option"
  search_contact_by_phone :: "event list \<Rightarrow> string \<Rightarrow> contact option"
  get_latest_tickets :: "event list \<Rightarrow> int \<Rightarrow> ticket list"
  transcribe_whisper :: "event list \<Rightarrow> string \<Rightarrow> py_error + string option"
  fetch_combined_knowledge :: "event list \<Rightarrow> string \<Rightarrow> string"
  get_client :: "event list \<Rightarrow> bool"
  chat_completion :: "event list \<Rightarrow> turn list \<Rightarrow> nat \<Rightarrow> nat \<Rightarrow> string + string"

text \<open>
  The environment: \<open>AGENT_NUMBER\<close> as \<open>os.getenv\<close> sees it, and \<open>PUBLIC_URL\<close>.  With them
  goes \<open>HUMAN_PROMPT\<close>, the constant of \<open>app/groq.py\<close> that holds the instructions to the
  model, some 5000 characters whose wording no definition here depends on.
\<close>

record config =
  env_agent_number :: "string option"
  public_url :: string
  human_prompt :: string

text \<open>
  The executor's variables: the dictionary \<open>current_call_state\<close> it was handed, the
  store, and the events so far.
\<close>

record exec_state =
  x_cur :: session
  x_calls :: store
  x_trace :: "event list"

definition save :: "call_id \<Rightarrow> exec_state \<Rightarrow> exec_state" where
  "save call_uuid x = x\<lparr>x_calls := set_call_state (x_calls x) call_uuid (x_cur x)\<rparr>"

definition emit :: "event \<Rightarrow> exec_state \<Rightarrow> exec_state" where
  "emit e x = x\<lparr>x_trace := x_trace x @ [e]\<rparr>"

text \<open>\<open>parts[1] if len(parts) > 1 else d\<close>.\<close>

definition part1 :: "string list \<Rightarrow> string option" where
  "part1 parts = (case parts of _ # p # _ \<Rightarrow> Some p | _ \<Rightarrow> None)"

text \<open>One pass of the loop body for one tag; \<open>Inl\<close> is an exception leaving the body.\<close>

definition exec_action ::
  "config \<Rightarrow> world \<Rightarrow> call_id \<Rightarrow> string option \<Rightarrow> nat \<Rightarrow> string \<times> string \<Rightarrow> exec_state
     \<Rightarrow> py_error + exec_state" where
  "exec_action cfg w call_uuid region text_len tag x =
     (let (tag_type, tag_content) = tag; cs = x_cur x in
      if tag_type = ''SENTIMENT'' then
        Inr (save call_uuid (x\<lparr>x_cur := cs\<lparr>sentiment := Some (capitalize (strip tag_content))\<rparr>\<rparr>))
      else
        let parts = map strip (split_on (CHR '':'') tag_content);
            cmd = upper (case parts of [] \<Rightarrow> [] | p # _ \<Rightarrow> p)
        in
        if cmd = points_of ''TRANSFER'' then
          let dest = (case env_agent_number cfg of None \<Rightarrow> ''18335645478'' | Some a \<Rightarrow> a);
              bot_num = (case bot_number cs of None \<Rightarrow> ''18335645478'' | Some b \<Rightarrow> b)
          in Inr (emit (Transfer_To_Agent call_uuid dest bot_num region) x)
        else if cmd = points_of ''CREATE_TICKET'' then
          let desc = (case part1 parts of None \<Rightarrow> ''No description provided'' | Some d \<Rightarrow> d);
              contact_phone = from_key cs;
              cid = contact_id cs;
              sent = (case sentiment cs of None \<Rightarrow> points_of ''Neutral'' | Some s \<Rightarrow> s);
              new_id = create_ticket w (x_trace x) call_uuid desc contact_phone sent cid;
              x1 = emit (Create_Ticket call_uuid desc contact_phone sent cid) x
          in if truthy new_id
             then Inr (save call_uuid (x1\<lparr>x_cur := cs\<lparr>ticket_id := new_id\<rparr>\<rparr>))
             else Inr x1
        else if cmd = points_of ''RESOLVE_TICKET'' then
          let t = (case part1 parts of None \<Rightarrow> ticket_id cs | Some p \<Rightarrow> Some p)
          in (case nonempty t of
                None \<Rightarrow> Inr x
              | Some tid \<Rightarrow>
                  (case py_int tid of
                     Inl e \<Rightarrow> Inl e
                   | Inr n \<Rightarrow> Inr (emit (Update_Ticket_Status n 4) x)))
        else if cmd = points_of ''UPDATE_NAME'' then
          let new_name = (case part1 parts of None \<Rightarrow> ''Unknown'' | Some p \<Rightarrow> p);
              cid = contact_id cs;
              contact_phone = from_key cs;
              x1 = (case nonzero cid of
                      Some c \<Rightarrow> emit (Update_Contact_Name c new_name) x
                    | None \<Rightarrow>
                       (case nonempty contact_phone of
                          Some ph \<Rightarrow>
                            (let made = create_contact w (x_trace x) new_name ph;
                                 x2 = emit (Create_Contact new_name ph) x
                             in case made of
                                  None \<Rightarrow> x2
                                | Some new_contact \<Rightarrow>
                                    x2\<lparr>x_cur := cs\<lparr>contact_id := c_id new_contact\<rparr>\<rparr>)
                        | None \<Rightarrow> x))
          in Inr (save call_uuid (x1\<lparr>x_cur := (x_cur x1)\<lparr>contact_name := Some new_name\<rparr>\<rparr>))
        else if cmd = points_of ''USE_TICKET'' then
          let t = part1 parts
          in if truthy t then Inr (save call_uuid (x\<lparr>x_cur := cs\<lparr>ticket_id := t\<rparr>\<rparr>))
             else Inr x
        else if cmd = points_of ''HANGUP'' then
          Inr (emit (Hangup_Call call_uuid region) (emit (Sleep_For_Speech text_len) x))
        else Inr x)"

text \<open>
  The \<open>for\<close> loop inside the one \<open>try\<close>: an exception leaves the loop, is caught and
  logged; the second component says whether that happened.
\<close>

fun run_actions ::
  "config \<Rightarrow> world \<Rightarrow> call_id \<Rightarrow> string option \<Rightarrow> nat \<Rightarrow> (string \<times> string) list \<Rightarrow> exec_state
     \<Rightarrow> exec_state \<times> py_error option" where
  "run_actions cfg w call_uuid region text_len [] x = (x, None)"
| "run_actions cfg w call_uuid region text_len (tag # tags) x =
     (case exec_action cfg w call_uuid region text_len tag x of
        Inl e \<Rightarrow> (x, Some e)
      | Inr x1 \<Rightarrow> run_actions cfg w call_uuid region text_len tags x1)"

definition execute_ai_actions ::
  "config \<Rightarrow> world \<Rightarrow> store \<Rightarrow> call_id \<Rightarrow> (string \<times> string) list \<Rightarrow> session \<Rightarrow> string option
     \<Rightarrow> nat \<Rightarrow> exec_state \<times> py_error option" where
  "execute_ai_actions cfg w calls call_uuid all_tags current_call_state region text_len =
     run_actions cfg w call_uuid region text_len all_tags
       \<lparr>x_cur = current_call_state, x_calls = calls, x_trace = []\<rparr>"

section \<open>Patterns (\<open>re\<close>) used by the turn pipeline\<close>

text \<open>\<open>\w\<close>: letters, digits of every kind and the underscore, on the code points below 256.\<close>

definition is_word :: "char \<Rightarrow> bool" where
  "is_word c = (let n = code c in
     (48 \<le> n \<and> n \<le> 57) \<or> (65 \<le> n \<and> n \<le> 90) \<or> n = 95 \<or> (97 \<le> n \<and> n \<le> 122)
     \<or> n = 170 \<or> n = 178 \<or> n = 179 \<or> n = 181 \<or> n = 185 \<or> n = 186
     \<or> (188 \<le> n \<and> n \<le> 190) \<or> (192 \<le> n \<and> n \<le> 214) \<or> (216 \<le> n \<and> n \<le> 246)
     \<or> 248 \<le> n)"

text \<open>\<open>str.isdigit\<close>: the decimal digits and the superscripts 2, 3 and 1.\<close>

definition py_isdigit :: "char \<Rightarrow> bool" where
  "py_isdigit c = (let n = code c in (48 \<le> n \<and> n \<le> 57) \<or> n = 178 \<or> n = 179 \<or> n = 185)"

text \<open>\<open>re.search(r'[a-zA-Z]', s)\<close> finds something.\<close>

definition has_letter :: "string \<Rightarrow> bool" where
  "has_letter s = list_ex is_ascii_letter s"

text \<open>\<open>re.sub(r'[^\w\s]', '', s)\<close>.\<close>

definition keep_word_space :: "string \<Rightarrow> string" where
  "keep_word_space s = filter (\<lambda>c. is_word c \<or> is_space c) s"

text \<open>\<open>s.replace(" ", "")\<close>.\<close>

definition remove_spaces :: "string \<Rightarrow> string" where
  "remove_spaces s = filter (\<lambda>c. c \<noteq> CHR '' '') s"

text \<open>
  \<open>re.match(r'^\+?\d+$', s)\<close> matches: an optional plus, digits, and then the end of the
  string or one final newline.
\<close>

definition phone_like :: "string \<Rightarrow> bool" where
  "phone_like s =
     (let b = (case s of [] \<Rightarrow> s | c # r \<Rightarrow> if c = CHR ''+'' then r else s);
          ds = takeWhile is_digit b;
          rest = drop (length ds) b
      in ds \<noteq> [] \<and> (rest = [] \<or> rest = [CHR 0x0A]))"

text \<open>
  \<open>re.search\<close>: the matcher \<open>m\<close> says what the pattern matches at the start of a string;
  the search tries every position from the left.
\<close>

fun search_first :: "(string \<Rightarrow> 'a option) \<Rightarrow> string \<Rightarrow> 'a option" where
  "search_first m [] = m []"
| "search_first m (c # cs) = (case m (c # cs) of Some r \<Rightarrow> Some r | None \<Rightarrow> search_first m cs)"

text \<open>
  \<open>re.sub(pattern, '', s)\<close> and \<open>s.replace(old, '')\<close>: \<open>m\<close> gives the length of the match at
  the start of a string; matches are removed from the left, without overlap.  The counter
  is the number of characters of the current match still to be dropped.
\<close>

fun delete_matches :: "(string \<Rightarrow> nat option) \<Rightarrow> nat \<Rightarrow> string \<Rightarrow> string" where
  "delete_matches m k [] = []"
| "delete_matches m (Suc k) (c # cs) = delete_matches m k cs"
| "delete_matches m 0 (c # cs) =
     (case m (c # cs) of
        Some (Suc n) \<Rightarrow> delete_matches m n cs
      | _ \<Rightarrow> c # delete_matches m 0 cs)"

text \<open>\<open>s.replace(old, new)\<close> for a non-empty \<open>old\<close>.\<close>

fun replace_lit :: "string \<Rightarrow> string \<Rightarrow> nat \<Rightarrow> string \<Rightarrow> string" where
  "replace_lit old new k [] = []"
| "replace_lit old new (Suc k) (c # cs) = replace_lit old new k cs"
| "replace_lit old new 0 (c # cs) =
     (if old \<noteq> [] \<and> prefix old (c # cs) then new @ replace_lit old new (length old - 1) cs
      else c # replace_lit old new 0 cs)"

definition after_prefix :: "string \<Rightarrow> string \<Rightarrow> string option" where
  "after_prefix lit s = (if prefix lit s then Some (drop (length lit) s) else None)"

text \<open>The literal \<open>lit\<close> at the start of a string, as a match length.\<close>

definition lit_at :: "string \<Rightarrow> string \<Rightarrow> nat option" where
  "lit_at lit s = (if prefix lit s then Some (length lit) else None)"

text \<open>\<open>old in s\<close>.\<close>

definition contains :: "string \<Rightarrow> string \<Rightarrow> bool" where
  "contains old s = (search_first (lit_at old) s \<noteq> None)"

text \<open>
  \<open>lit(.*?)\]\<close> at the start of a string: the literal, then as little as possible up to
  the first closing bracket, with no newline before it.  The result is the group and the
  length of the match.
\<close>

definition lazy_tag_at :: "string \<Rightarrow> string \<Rightarrow> (string \<times> nat) option" where
  "lazy_tag_at lit s =
     (case after_prefix lit s of
        None \<Rightarrow> None
      | Some r \<Rightarrow>
          let seg = takeWhile (\<lambda>c. c \<noteq> CHR '']'' \<and> c \<noteq> CHR 0x0A) r
          in if prefix '']'' (drop (length seg) r)
             then Some (seg, length lit + length seg + 1) else None)"

text \<open>\<open>lit(\d+)\]\<close> at the start of a string.\<close>

definition digit_tag_at :: "string \<Rightarrow> string \<Rightarrow> (string \<times> nat) option" where
  "digit_tag_at lit s =
     (case after_prefix lit s of
        None \<Rightarrow> None
      | Some r \<Rightarrow>
          let seg = takeWhile is_digit r
          in if seg \<noteq> [] \<and> prefix '']'' (drop (length seg) r)
             then Some (seg, length lit + length seg + 1) else None)"

text \<open>
  \<open>\[SENTIMENT:\s*([^\]]+)\]\<close> at the start of a string.  The group runs to the first
  closing bracket and must not be empty; it starts after the leading whitespace, unless
  there is nothing but whitespace, when the backtracking leaves it the last blank.
\<close>

definition sentiment_at :: "string \<Rightarrow> string option" where
  "sentiment_at s =
     (case after_prefix ''[SENTIMENT:'' s of
        None \<Rightarrow> None
      | Some r \<Rightarrow>
          let seg = takeWhile (\<lambda>c. c \<noteq> CHR '']'') r
          in if seg \<noteq> [] \<and> prefix '']'' (drop (length seg) r)
             then Some (if dropWhile is_space seg = [] then [last seg]
                        else dropWhile is_space seg)
             else None)"

text \<open>
  \<open>\[ACTION: TRANSFER(?::\s*(\d+))?\]\<close> at the start of a string: the group (if it took
  part) and the length of the match.
\<close>

definition transfer_at :: "string \<Rightarrow> (string option \<times> nat) option" where
  "transfer_at s =
     (case after_prefix ''[ACTION: TRANSFER'' s of
        None \<Rightarrow> None
      | Some r \<Rightarrow>
          (case r of
             [] \<Rightarrow> None
           | c # r1 \<Rightarrow>
               if c = CHR '':'' then
                 (let ws = takeWhile is_space r1;
                      r2 = drop (length ws) r1;
                      ds = takeWhile is_digit r2
                  in if ds \<noteq> [] \<and> prefix '']'' (drop (length ds) r2)
                     then Some (Some ds, 17 + 1 + length ws + length ds + 1) else None)
               else if c = CHR '']'' then Some (None, 17 + 1)
               else None))"

definition match_len :: "(string \<Rightarrow> ('a \<times> nat) option) \<Rightarrow> string \<Rightarrow> nat option" where
  "match_len m s = map_option snd (m s)"

definition group_of :: "(string \<Rightarrow> ('a \<times> nat) option) \<Rightarrow> string \<Rightarrow> 'a option" where
  "group_of m s = map_option fst (m s)"

section \<open>The reply generator (\<open>agent_response\<close> in \<open>app/groq.py\<close>)\<close>

definition nl :: string where
  "nl = [CHR 0x0A]"

text \<open>\<open>sep.join(xs)\<close>.\<close>

fun join :: "string \<Rightarrow> string list \<Rightarrow> string" where
  "join sep [] = []"
| "join sep [x] = x"
| "join sep (x # y # ys) = x @ sep @ join sep (y # ys)"

text \<open>The name shown to the model: a name without a letter of \<open>[a-zA-Z]\<close> becomes \<open>Unknown\<close>.\<close>

definition display_name :: "string option \<Rightarrow> string option" where
  "display_name name =
     (case name of
        None \<Rightarrow> None
      | Some n \<Rightarrow> if n \<noteq> [] \<and> \<not> has_letter n then Some ''Unknown'' else Some n)"

text \<open>What the name adds to the prompt: nothing when there is no name to show.\<close>

definition customer_info :: "string option \<Rightarrow> string" where
  "customer_info name =
     (case nonempty (display_name name) of
        None \<Rightarrow> []
      | Some d \<Rightarrow> nl @ nl @ ''CUSTOMER INFO: Talking to '' @ d @ ''.'')"

text \<open>The line of \<open>ticket_data\<close> for one ticket.\<close>

definition status_name :: "int \<Rightarrow> string" where
  "status_name n = (if n = 2 then ''Open'' else if n = 3 then ''Pending''
     else if n = 4 then ''Resolved'' else if n = 5 then ''Closed'' else ''Unknown'')"

definition priority_name :: "int \<Rightarrow> string" where
  "priority_name n = (if n = 1 then ''Low'' else if n = 2 then ''Medium''
     else if n = 3 then ''High'' else if n = 4 then ''Urgent'' else ''Unknown'')"

definition ticket_line :: "ticket \<Rightarrow> string" where
  "ticket_line t =
     ''- ID: '' @ str_int (t_id t) @ '', Status: '' @ status_name (t_status t)
     @ '', Priority: '' @ priority_name (t_priority t) @ '' ('' @ str_int (t_priority t)
     @ ''), Subject: '' @ t_subject t @ '', Description: ''
     @ (case t_description t of None \<Rightarrow> ''No description available.'' | Some d \<Rightarrow> d)"

text \<open>
  The loop over \<open>reversed(history)\<close>: the ticket id of the latest assistant turn that
  carries a \<open>USE_TICKET\<close> tag.  The argument is the reversed history.
\<close>

fun confirmed_ticket :: "turn list \<Rightarrow> string option" where
  "confirmed_ticket [] = None"
| "confirmed_ticket (msg # msgs) =
     (if role msg = ''assistant'' then
        (case search_first (group_of (digit_tag_at ''[ACTION: USE_TICKET: '')) (content msg) of
           Some g \<Rightarrow> Some g
         | None \<Rightarrow> confirmed_ticket msgs)
      else confirmed_ticket msgs)"

definition is_high :: "ticket \<Rightarrow> bool" where
  "is_high t = (t_priority t = 3 \<or> t_priority t = 4)"

text \<open>\<open>priority_str\<close>: decided by the first recent ticket with the active id.\<close>

fun priority_str :: "string \<Rightarrow> ticket list \<Rightarrow> string" where
  "priority_str active_id [] = ''Regular''"
| "priority_str active_id (t # ts) =
     (if str_int (t_id t) = active_id then (if is_high t then ''HIGH/URGENT'' else ''Regular'')
      else priority_str active_id ts)"

definition intent_phrases :: "string list" where
  "intent_phrases = [''previous issue'', ''past issue'', ''status'', ''already talked'', ''my ticket'']"

text \<open>The system prompt, built up in the order of the source.\<close>

definition context_prompt :: "config \<Rightarrow> gen_args \<Rightarrow> string" where
  "context_prompt cfg args =
     (let p0 = human_prompt cfg;
          p1 = p0 @ customer_info (g_contact_name args);
          p2 = (case nonempty (g_phone args) of
                  None \<Rightarrow> p1
                | Some ph \<Rightarrow> replace_lit ''[Phone]'' ph 0 p1);
          recent = g_recent_tickets args;
          p3 = (if recent = [] then p2
                else p2 @ nl @ nl @ ''RECENT_TICKETS (Max 2):'' @ nl @ join nl (map ticket_line recent));
          active_id = (case nonempty (g_active_ticket_id args) of
                         Some a \<Rightarrow> Some a
                       | None \<Rightarrow> nonempty (confirmed_ticket (rev (g_history args))));
          p4 = (if list_ex is_high recent
                then p3 @ nl @ nl @ ''CRITICAL MANDATE: One or more tickets in HISTORY/RECENT_TICKETS are HIGH PRIORITY. You MUST APOLOGIZE and OFFER A TRANSFER immediately if this matches the user's issue. DO NOT mention the 'Ticket ID' number.''
                else p3);
          p5 = (case active_id of
                  None \<Rightarrow> p4
                | Some a \<Rightarrow>
                    let q = p4 @ nl @ nl @ ''ACTIVE_SESSION_TICKET_ID: '' @ a @ ''. [PRIORITY: ''
                              @ priority_str a recent
                              @ '']. User has confirmed this is their issue. Use ticket notes to solve.''
                    in if priority_str a recent = ''HIGH/URGENT''
                       then q @ nl @ ''ATTENTION: This is a HIGH PRIORITY ticket. Offer transfer now if you haven't already. (Choice: 'Transfer to live agent' or 'Continue with me').''
                       else q);
          p6 = p5 @ nl @ nl @ ''CRITICAL: If new issue, user said 'No' to previous contact, AND NO ACTIVE_SESSION_TICKET_ID exists, you MUST include [ACTION: CREATE_TICKET: Description]. If existing ticket matches and user confirms, you MUST include [ACTION: USE_TICKET: ID].''
      in if list_ex (\<lambda>phrase. contains phrase (lower (g_issue args))) intent_phrases
         then p6 @ nl @ nl @ ''USER INTENT ALERT: User has explicitly asked about a PREVIOUS issue or STATUS. Do NOT ask if they have contacted an agent before. Proceed directly to Step 3 (Ticket Matching).''
         else p6)"

text \<open>The messages of the request: the system prompt, the last 12 turns, the issue.\<close>

definition messages :: "config \<Rightarrow> gen_args \<Rightarrow> turn list" where
  "messages cfg args =
     [\<lparr>role = ''system'', content = context_prompt cfg args\<rparr>]
     @ last_n 12 (g_history args)
     @ [\<lparr>role = ''user'',
         content = ''Issue: '' @ g_issue args @ nl @ nl @ ''KB Context:'' @ nl
           @ (if g_kb args = []
              then ''No specific Freshdesk KB path found - provide a standard L1 solution.''
              else g_kb args)\<rparr>]"

text \<open>
  The two patterns of the failsafe, both matched without regard to case:
  \<open>\(?ID:\s*\d+\)?\<close> and \<open>ticket\s+id\s*[:#]?\s*\d*\<close>, each as the length of its match at
  the start of a string.
\<close>

definition id_mention_at :: "string \<Rightarrow> nat option" where
  "id_mention_at s =
     (let opened = prefix ''('' s;
          b = (if opened then tl s else s)
      in if lower (take 3 b) = ''id:'' then
           (let r1 = drop 3 b;
                ws = takeWhile is_space r1;
                r2 = drop (length ws) r1;
                ds = takeWhile is_digit r2;
                r3 = drop (length ds) r2
            in if ds \<noteq> []
               then Some ((if opened then 1 else 0) + 3 + length ws + length ds
                          + (if prefix '')'' r3 then 1 else 0))
               else None)
         else None)"

definition ticket_id_mention_at :: "string \<Rightarrow> nat option" where
  "ticket_id_mention_at s =
     (if lower (take 6 s) = ''ticket'' then
        (let r0 = drop 6 s;
             ws0 = takeWhile is_space r0;
             r1 = drop (length ws0) r0
         in if ws0 \<noteq> [] \<and> lower (take 2 r1) = ''id'' then
              (let r2 = drop 2 r1;
                   ws1 = takeWhile is_space r2;
                   r3 = drop (length ws1) r2;
                   sep = (case r3 of [] \<Rightarrow> False | c # _ \<Rightarrow> c = CHR '':'' \<or> c = CHR ''#'');
                   r4 = (if sep then tl r3 else r3);
                   ws2 = takeWhile is_space r4;
                   r5 = drop (length ws2) r4;
                   ds = takeWhile is_digit r5
               in Some (6 + length ws0 + 2 + length ws1 + (if sep then 1 else 0) + length ws2
                        + length ds))
            else None)
      else None)"

text \<open>What \<open>agent_response\<close> makes of the content the model returned.\<close>

definition clean_response :: "string \<Rightarrow> string" where
  "clean_response content0 =
     strip (replace_lit ''  '' '' '' 0
       (delete_matches ticket_id_mention_at 0 (delete_matches id_mention_at 0 (strip content0))))"

definition no_client_reply :: string where
  "no_client_reply = ''Let me check. Clear cache. Does that work?''"

definition busy_reply :: string where
  "busy_reply = ''I'' @ [CHR 0x27] @ ''m sorry, I'' @ [CHR 0x27]
     @ ''m experiencing a high volume of requests right now. Please wait a few seconds and try again so I can assist you better.''"

definition failure_reply :: string where
  "failure_reply = ''I'' @ [CHR 0x27]
     @ ''m sorry, I encountered an internal error. Please tell me more about the problem so I can help?''"

text \<open>
  \<open>agent_response\<close>: the reply and the events, to which the request to the model is added
  when there is a client.  Nothing outside the \<open>try\<close> around the request raises.
\<close>

definition agent_response :: "config \<Rightarrow> world \<Rightarrow> event list \<Rightarrow> gen_args \<Rightarrow> string \<times> event list" where
  "agent_response cfg w tr args =
     (if \<not> get_client w tr then (no_client_reply, tr)
      else
        let msgs = messages cfg args;
            tr1 = tr @ [Chat_Completion msgs (g_max_tokens args) (g_temperature args)]
        in case chat_completion w tr msgs (g_max_tokens args) (g_temperature args) of
             Inr content0 \<Rightarrow> (clean_response content0, tr1)
           | Inl err_msg \<Rightarrow> (if contains ''429'' err_msg then busy_reply else failure_reply, tr1))"

section \<open>The batch turn pipeline (\<open>handle_voice_asr\<close> in \<open>app/voice.py\<close>)\<close>

text \<open>The webhook body: the keys the handler reads.\<close>

record asr_request =
  r_uuid :: "string option"
  r_audio :: "string option"
  r_recording_url :: "string option"

text \<open>
  The instructions of a webhook response.  \<open>Input_Speech\<close> carries the event URL and
  \<open>endOnSilence\<close> in tenths of a second; \<open>Connect_Phone\<close> the \<open>from\<close> number, the target
  number, the timeout and the event URL; \<open>Connect_Websocket\<close> the URI and the \<open>uuid\<close>
  header.
\<close>

datatype ncco_action =
    Talk string bool
  | Input_Speech string nat
  | Connect_Phone string string nat string
  | Connect_Websocket string call_id
  | Hangup

datatype response = Ncco "ncco_action list" | Error_Json string nat

text \<open>
  \<open>call_state\<close> in the handler is the stored dictionary itself, so the handler reads the
  session from the store, and an assignment to a key followed by \<open>set_call_state\<close> is
  an update of the stored session.
\<close>

definition cur :: "store \<Rightarrow> call_id \<Rightarrow> session" where
  "cur calls call_uuid = fst (get_call_state calls call_uuid)"

definition put :: "call_id \<Rightarrow> (session \<Rightarrow> session) \<Rightarrow> store \<Rightarrow> store" where
  "put call_uuid f calls = set_call_state calls call_uuid (f (cur calls call_uuid))"

text \<open>\<open>not call_state\<close>: a dictionary is false when it has no key; a session always has keys.\<close>

definition is_empty_dict :: "session \<Rightarrow> bool" where
  "is_empty_dict cs = False"

text \<open>
  The wait for the background lookup: at most 25 sleeps, the session fetched again after
  each.  The model is of one handler at a time, so nothing else writes the store
  meanwhile.
\<close>

function wait_for_lookup :: "store \<Rightarrow> call_id \<Rightarrow> session \<Rightarrow> nat \<Rightarrow> session \<times> store" where
  "wait_for_lookup calls call_uuid cs wait_count =
     (if \<not> lookup_done cs \<and> wait_count < 25
      then (let (cs1, calls1) = get_call_state calls call_uuid
            in wait_for_lookup calls1 call_uuid cs1 (wait_count + 1))
      else (cs, calls))"
  by pat_completeness auto
termination
  by (relation "measure (\<lambda>(calls, call_uuid, cs, wait_count). 25 - wait_count)") auto

declare wait_for_lookup.simps [simp del]

definition asr_error_tags :: "string list" where
  "asr_error_tags = [''[ASR_FAILED]'', ''[ASR_ERROR]'', ''[NO_AUDIO]'']"

definition noise_artifacts :: "string list" where
  "noise_artifacts = [''hau'', ''uh'', ''um'', ''the wind'', ''background noise'', ''[noise]'',
     ''disturbance'']"

definition whitelist :: "string list" where
  "whitelist = [''yes'', ''no'', ''ok'', ''help'', ''yeah'', ''yep'', ''sure'', ''yup'', ''hi'', ''hey'']"

definition confirmations :: "string list" where
  "confirmations = [''yes'', ''no'', ''okay'', ''ok'', ''yep'', ''sure'', ''correct'', ''perfect'',
     ''done'', ''completed'']"

text \<open>Step 2, first half: the audio of the request is transcribed, or a sentinel stands in.\<close>

definition asr_stage :: "world \<Rightarrow> asr_request \<Rightarrow> event list \<Rightarrow> string \<times> event list" where
  "asr_stage w req tr =
     (let audio_data = (if \<not> truthy (r_audio req) \<and> truthy (r_recording_url req)
                        then r_recording_url req else r_audio req)
      in case nonempty audio_data of
           None \<Rightarrow> (''[NO_AUDIO]'', tr)
         | Some a \<Rightarrow>
             (case transcribe_whisper w tr a of
                Inl e \<Rightarrow> (''[ASR_ERROR]'', tr @ [Transcribe a])
              | Inr t \<Rightarrow>
                  (case nonempty t of
                     None \<Rightarrow> (''[ASR_FAILED]'', tr @ [Transcribe a])
                   | Some text \<Rightarrow> (text, tr @ [Transcribe a]))))"

text \<open>Step 2, second half: the noise filter, which leaves the error sentinels alone.\<close>

definition noise_filter :: "string \<Rightarrow> string" where
  "noise_filter speech_text =
     (if speech_text \<in> set asr_error_tags then speech_text
      else
        let cleaned_speech = keep_word_space (strip (lower speech_text));
            is_noise =
              (if speech_text \<noteq> [] \<and> length speech_text < 5 \<and> cleaned_speech \<notin> set whitelist
               then True
               else cleaned_speech \<in> set noise_artifacts)
        in if speech_text = [] \<or> length speech_text < 2 \<or> is_noise
           then ''[SILENCE]'' else speech_text)"

text \<open>The variables of the pipeline after the reply has been generated.\<close>

record turn_state =
  p_reply :: string
  p_calls :: store
  p_trace :: "event list"

text \<open>3a: the sentiment tag.\<close>

definition sentiment_stage :: "call_id \<Rightarrow> turn_state \<Rightarrow> turn_state" where
  "sentiment_stage call_uuid p =
     (case search_first sentiment_at (p_reply p) of
        None \<Rightarrow> p
      | Some g \<Rightarrow>
          p\<lparr>p_calls := put call_uuid (\<lambda>cs. cs\<lparr>sentiment := Some (capitalize (strip g))\<rparr>) (p_calls p),
            p_reply := strip (delete_matches (match_len (lazy_tag_at ''[SENTIMENT:'')) 0 (p_reply p))\<rparr>)"

text \<open>3b: ticket creation.\<close>

definition create_stage :: "world \<Rightarrow> call_id \<Rightarrow> turn_state \<Rightarrow> turn_state" where
  "create_stage w call_uuid p =
     (case search_first (group_of (lazy_tag_at ''[ACTION: CREATE_TICKET: '')) (p_reply p) of
        None \<Rightarrow> p
      | Some issue_summary \<Rightarrow>
          let cs = cur (p_calls p) call_uuid;
              sent = (case sentiment cs of None \<Rightarrow> points_of ''Neutral'' | Some s \<Rightarrow> s);
              active_id = create_ticket w (p_trace p) call_uuid issue_summary (Some (phone cs)) sent
                            (contact_id cs)
          in p\<lparr>p_trace := p_trace p @ [Create_Ticket call_uuid issue_summary (Some (phone cs)) sent
                                         (contact_id cs)],
               p_calls := put call_uuid (\<lambda>cs. cs\<lparr>ticket_id := active_id\<rparr>) (p_calls p),
               p_reply := strip (delete_matches (match_len (lazy_tag_at ''[ACTION: CREATE_TICKET: ''))
                                   0 (p_reply p))\<rparr>)"

text \<open>3g: adoption of an existing ticket.\<close>

definition use_stage :: "call_id \<Rightarrow> turn_state \<Rightarrow> turn_state" where
  "use_stage call_uuid p =
     (case search_first (group_of (digit_tag_at ''[ACTION: USE_TICKET: '')) (p_reply p) of
        None \<Rightarrow> p
      | Some adopted_id \<Rightarrow>
          p\<lparr>p_calls := put call_uuid (\<lambda>cs. cs\<lparr>ticket_id := Some adopted_id\<rparr>) (p_calls p),
            p_reply := strip (delete_matches (match_len (digit_tag_at ''[ACTION: USE_TICKET: ''))
                                0 (p_reply p))\<rparr>)"

text \<open>
  Resolution.  \<open>int\<close> is applied to the digits the pattern matched; it raises when there
  are more than 4300 of them, before the helpdesk is called.
\<close>

definition resolve_stage :: "turn_state \<Rightarrow> py_error + turn_state" where
  "resolve_stage p =
     (case search_first (group_of (digit_tag_at ''[ACTION: RESOLVE_TICKET: '')) (p_reply p) of
        None \<Rightarrow> Inr p
      | Some target_ticket_id \<Rightarrow>
          (case py_int target_ticket_id of
             Inl e \<Rightarrow> Inl e
           | Inr n \<Rightarrow>
               Inr (p\<lparr>p_trace := p_trace p @ [Update_Ticket_Status n 4],
                      p_reply := strip (delete_matches
                                          (match_len (digit_tag_at ''[ACTION: RESOLVE_TICKET: '')) 0
                                          (p_reply p))\<rparr>)))"

text \<open>3c: the contact's name.\<close>

definition is_placeholder :: "string option \<Rightarrow> bool" where
  "is_placeholder current_name =
     (case nonempty current_name of
        None \<Rightarrow> True
      | Some n \<Rightarrow> lower n = ''unknown'' \<or> phone_like (remove_spaces n))"

definition name_stage :: "call_id \<Rightarrow> turn_state \<Rightarrow> turn_state" where
  "name_stage call_uuid p =
     (case search_first (group_of (lazy_tag_at ''[ACTION: UPDATE_NAME: '')) (p_reply p) of
        None \<Rightarrow> p
      | Some g \<Rightarrow>
          (case nonzero (contact_id (cur (p_calls p) call_uuid)) of
             None \<Rightarrow> p
           | Some cid \<Rightarrow>
               let new_name = strip g;
                   current_name = contact_name (cur (p_calls p) call_uuid);
                   p1 = (if is_placeholder current_name \<and> lower new_name \<noteq> ''unknown''
                            \<and> \<not> phone_like (remove_spaces new_name)
                         then p\<lparr>p_trace := p_trace p @ [Update_Contact_Name cid new_name],
                                p_calls := put call_uuid (\<lambda>cs. cs\<lparr>contact_name := Some new_name\<rparr>)
                                             (p_calls p)\<rparr>
                         else p)
               in p1\<lparr>p_reply := strip (delete_matches
                                         (match_len (lazy_tag_at ''[ACTION: UPDATE_NAME: '')) 0
                                         (p_reply p))\<rparr>))"

text \<open>3d to the end: hangup, wait and transfer tags, and the response built from them.\<close>

definition agent_number :: "config \<Rightarrow> string" where
  "agent_number cfg = (case env_agent_number cfg of None \<Rightarrow> ''14702834062'' | Some a \<Rightarrow> a)"

definition strip_tag :: "string \<Rightarrow> string \<Rightarrow> string" where
  "strip_tag tag s = (if contains tag s then strip (delete_matches (lit_at tag) 0 s) else s)"

definition respond_stage :: "config \<Rightarrow> call_id \<Rightarrow> turn_state \<Rightarrow> response \<times> store \<times> event list" where
  "respond_stage cfg call_uuid p =
     (let r0 = p_reply p;
          should_hangup = contains ''[ACTION: HANGUP]'' r0;
          r1 = strip_tag ''[ACTION: HANGUP]'' r0;
          should_wait = contains ''[ACTION: WAIT]'' r1;
          r2 = strip_tag ''[ACTION: WAIT]'' r1;
          transfer_match = search_first (group_of transfer_at) r2;
          should_transfer = (transfer_match \<noteq> None);
          target_number =
            (case transfer_match of
               Some (Some raw_number) \<Rightarrow>
                 if raw_number \<noteq> [] \<and> 7 \<le> length (filter py_isdigit raw_number)
                 then filter py_isdigit raw_number else agent_number cfg
             | _ \<Rightarrow> agent_number cfg);
          calls1 = (if should_transfer
                    then put call_uuid (\<lambda>cs. cs\<lparr>transfer_requested := True\<rparr>) (p_calls p)
                    else p_calls p);
          r3 = (if should_transfer then strip (delete_matches (match_len transfer_at) 0 r2) else r2);
          cs = cur calls1 call_uuid;
          talk = Talk r3 (\<not> should_transfer);
          ncco =
            (if should_transfer then
               [talk,
                Connect_Phone (case bot_number cs of None \<Rightarrow> agent_number cfg | Some b \<Rightarrow> b)
                  (if prefix ''+'' target_number then target_number else ''+'' @ target_number)
                  60 (public_url cfg @ ''/voice/events'')]
             else if should_hangup then [talk, Hangup]
             else
               [talk,
                Input_Speech (public_url cfg @ ''/voice/asr'')
                  (if should_wait then 50 else if length (history cs) \<le> 1 then 15 else 12)])
      in (Ncco ncco, put call_uuid (\<lambda>cs. cs\<lparr>processing := False\<rparr>) calls1, p_trace p))"

definition apology :: string where
  "apology = ''I'' @ [CHR 0x27] @ ''m sorry, I couldn'' @ [CHR 0x27]
     @ ''t hear you clearly due to a connection issue. Could you please repeat that?''"

definition pipeline_error_reply :: string where
  "pipeline_error_reply = ''I encountered an error. Could you repeat that?''"

text \<open>
  Step 3 from the confidence filter to the assistant's turn in the transcript: the
  knowledge base is asked unless the turn is short or a confirmation, the reply is
  generated and appended to the history.
\<close>

definition asr_generate ::
  "config \<Rightarrow> world \<Rightarrow> call_id \<Rightarrow> string \<Rightarrow> store \<Rightarrow> event list \<Rightarrow> turn_state" where
  "asr_generate cfg w call_uuid speech_text calls1 tr =
     (let query_clean = keep_word_space (strip (lower speech_text));
          skip_kb = (length speech_text < 10 \<or> query_clean \<in> set confirmations);
          kb = (if skip_kb then [] else fetch_combined_knowledge w tr speech_text);
          tr1 = (if skip_kb then tr else tr @ [Fetch_Knowledge speech_text]);
          cs = cur calls1 call_uuid;
          args = \<lparr>g_issue = speech_text, g_kb = kb, g_history = history cs,
                  g_contact_name = contact_name cs, g_recent_tickets = recent_tickets cs,
                  g_active_ticket_id = ticket_id cs, g_phone = Some (phone cs),
                  g_max_tokens = 600, g_temperature = 3\<rparr>;
          (ai_response, tr2) = agent_response cfg w (tr1 @ [Generate args]) args;
          calls2 = append_history calls1 call_uuid ''assistant'' ai_response
      in \<lparr>p_reply = ai_response, p_calls = calls2, p_trace = tr2\<rparr>)"

text \<open>
  Steps 3a to the response.  The one exception that can leave them is the \<open>ValueError\<close> of
  the resolution step; the \<open>except\<close> branch of the \<open>try\<close> then answers with a fixed
  request to repeat, on the session as the steps before left it.
\<close>

definition asr_actions :: "config \<Rightarrow> world \<Rightarrow> call_id \<Rightarrow> turn_state \<Rightarrow> response \<times> store \<times> event list" where
  "asr_actions cfg w call_uuid p =
     (let p1 = use_stage call_uuid (create_stage w call_uuid (sentiment_stage call_uuid p))
      in case resolve_stage p1 of
           Inr p2 \<Rightarrow> respond_stage cfg call_uuid (name_stage call_uuid p2)
         | Inl e \<Rightarrow>
             (Ncco [Talk pipeline_error_reply True, Input_Speech (public_url cfg @ ''/voice/asr'') 15],
              put call_uuid (\<lambda>cs. cs\<lparr>processing := False\<rparr>) (p_calls p1), p_trace p1))"

text \<open>Step 3, the \<open>try\<close> block with its \<open>except\<close> branch.\<close>

definition asr_pipeline ::
  "config \<Rightarrow> world \<Rightarrow> call_id \<Rightarrow> string \<Rightarrow> store \<Rightarrow> event list \<Rightarrow> response \<times> store \<times> event list" where
  "asr_pipeline cfg w call_uuid speech_text calls tr =
     (let calls1 = append_history calls call_uuid ''user'' speech_text in
      if speech_text \<in> set asr_error_tags then
        (Ncco [Talk apology True, Input_Speech (public_url cfg @ ''/voice/asr'') 15],
         put call_uuid (\<lambda>cs. cs\<lparr>processing := False\<rparr>) calls1, tr)
      else asr_actions cfg w call_uuid (asr_generate cfg w call_uuid speech_text calls1 tr))"

text \<open>
  The handler up to its guard: the response when it ends there, and the store, in which
  an admitted handler has set \<open>processing\<close>.
\<close>

definition asr_admit :: "store \<Rightarrow> asr_request \<Rightarrow> response option \<times> store" where
  "asr_admit calls req =
     (let call_uuid = r_uuid req;
          (cs0, calls0) = get_call_state calls call_uuid
      in if is_empty_dict cs0 then (Some (Error_Json ''No session'' 404), calls0)
         else
           let (cs1, calls1) = wait_for_lookup calls0 call_uuid cs0 0
           in if processing cs1 then (Some (Ncco []), calls1)
              else (None, put call_uuid (\<lambda>cs. cs\<lparr>processing := True\<rparr>) calls1))"

text \<open>The rest of an admitted handler: steps 2 and 3.\<close>

definition asr_turn :: "config \<Rightarrow> world \<Rightarrow> store \<Rightarrow> asr_request \<Rightarrow> response \<times> store \<times> event list" where
  "asr_turn cfg w calls req =
     (let (speech_text, tr) = asr_stage w req [];
          speech_text1 = noise_filter speech_text
      in asr_pipeline cfg w (r_uuid req) speech_text1 calls tr)"

definition handle_voice_asr ::
  "config \<Rightarrow> world \<Rightarrow> store \<Rightarrow> asr_request \<Rightarrow> response \<times> store \<times> event list" where
  "handle_voice_asr cfg w calls req =
     (case asr_admit calls req of
        (Some resp, calls1) \<Rightarrow> (resp, calls1, [])
      | (None, calls2) \<Rightarrow> asr_turn cfg w calls2 req)"

section \<open>The answer path (\<open>handle_voice_answer\<close>, \<open>background_freshdesk_lookup\<close>)\<close>

text \<open>
  \<open>is_valid_name\<close>, as both functions compute it: the name is there, has a letter of
  \<open>[a-zA-Z]\<close> and is not \<open>unknown\<close> in any casing.
\<close>

definition is_valid_name :: "string option \<Rightarrow> bool" where
  "is_valid_name name =
     (case nonempty name of None \<Rightarrow> False | Some n \<Rightarrow> has_letter n \<and> lower n \<noteq> ''unknown'')"

text \<open>
  The lookup started by the answer handler.  Its collaborators catch their own
  exceptions, so the \<open>except\<close> branch, which only skips the update, is never taken.
\<close>

definition background_freshdesk_lookup ::
  "world \<Rightarrow> store \<Rightarrow> call_id \<Rightarrow> string \<Rightarrow> event list \<Rightarrow> store \<times> event list" where
  "background_freshdesk_lookup w calls call_uuid from_number tr =
     (let found = search_contact_by_phone w tr from_number;
          tr1 = tr @ [Search_Contact from_number];
          missing = (case found of None \<Rightarrow> True | Some c \<Rightarrow> nonzero (c_id c) = None);
          contact = (if missing then create_contact w tr1 from_number from_number else found);
          tr2 = (if missing then tr1 @ [Create_Contact from_number from_number] else tr1);
          usable = (case contact of None \<Rightarrow> None
                    | Some c \<Rightarrow> (case nonzero (c_id c) of None \<Rightarrow> None | Some i \<Rightarrow> Some (c, i)))
      in case usable of
           None \<Rightarrow> (put call_uuid (\<lambda>cs. cs\<lparr>lookup_done := True\<rparr>) calls, tr2)
         | Some (c, i) \<Rightarrow>
             let name = (if is_valid_name (c_name c) then c_name c else None);
                 tickets = get_latest_tickets w tr2 i
             in (put call_uuid
                   (\<lambda>cs. cs\<lparr>contact_id := c_id c, contact_name := name, recent_tickets := tickets,
                           lookup_done := True\<rparr>) calls,
                 tr2 @ [Get_Latest_Tickets i]))"

record answer_request =
  a_uuid :: "string option"
  a_conversation_uuid :: "string option"
  a_from :: "string option"
  a_to :: "string option"
  a_region_url :: "string option"

definition generic_greeting :: string where
  "generic_greeting = ''Hello. Welcome to Sandeza support. How can I help you today?''"

text \<open>The greeting chosen from the name the session holds after the short wait.\<close>

definition greeting_for :: "string option \<Rightarrow> string" where
  "greeting_for raw_name =
     (case raw_name of
        None \<Rightarrow> generic_greeting
      | Some n \<Rightarrow>
          if is_valid_name raw_name
          then ''Hello '' @ n @ ''. Welcome back to Sandeza support. How can I help you today?''
          else generic_greeting)"

text \<open>\<open>a or b\<close> on optional strings.\<close>

definition or_else :: "string option \<Rightarrow> string option \<Rightarrow> string option" where
  "or_else a b = (case nonempty a of None \<Rightarrow> b | Some s \<Rightarrow> Some s)"

text \<open>
  The answer handler.  \<open>in_time\<close> says whether the lookup finished within the 0.4 seconds
  the handler waits for it; when it did not, its writes come later and are no part of
  what the handler returns.
\<close>

definition handle_voice_answer ::
  "config \<Rightarrow> world \<Rightarrow> store \<Rightarrow> answer_request \<Rightarrow> bool \<Rightarrow> response \<times> store \<times> event list" where
  "handle_voice_answer cfg w calls req in_time =
     (let call_uuid = or_else (or_else (a_uuid req) (a_conversation_uuid req)) (Some ''test'');
          from_number = (case nonempty (a_from req) of None \<Rightarrow> ''unknown'' | Some f \<Rightarrow> f);
          to_number = (case nonempty (a_to req) of None \<Rightarrow> ''unknown'' | Some t \<Rightarrow> t);
          calls1 = set_call_state calls call_uuid
                     \<lparr>history = [], processing = False, ticket_id = None, phone = from_number,
                      sentiment = None, transfer_requested = False, bot_number = Some to_number,
                      contact_name = None, contact_id = None, recent_tickets = [],
                      lookup_done = False, region_url = a_region_url req, from_key = None\<rparr>;
          looked = (from_number \<noteq> ''unknown'' \<and> 5 < length from_number);
          (calls2, tr) =
            (if looked then
               (if in_time then background_freshdesk_lookup w calls1 call_uuid from_number []
                else (calls1, []))
             else (put call_uuid (\<lambda>cs. cs\<lparr>lookup_done := True\<rparr>) calls1, []));
          greeting = (if looked then greeting_for (contact_name (cur calls2 call_uuid))
                      else generic_greeting);
          calls3 = append_history calls2 call_uuid ''assistant'' greeting;
          ws_url = replace_lit ''http'' ''ws'' 0 (public_url cfg) @ ''/voice/stream''
      in (Ncco [Talk greeting False, Connect_Websocket ws_url call_uuid], calls3, tr))"

section \<open>A concrete environment for the examples\<close>

text \<open>
  A helpdesk that answers every ticket creation with the id 222 and knows no contact, a
  transcriber that returns its input as the text, and a model that always says ``Okay.''.
\<close>

definition example_config :: config where
  "example_config = \<lparr>env_agent_number = None, public_url = ''https://agent.example'',
     human_prompt = ''You are a support agent.''\<rparr>"

definition example_world :: world where
  "example_world =
     \<lparr>create_ticket = (\<lambda>tr u d p s c. Some ''222''),
      create_contact = (\<lambda>tr n p. None),
      search_contact_by_phone = (\<lambda>tr p. None),
      get_latest_tickets = (\<lambda>tr i. []),
      transcribe_whisper = (\<lambda>tr a. Inr (Some a)),
      fetch_combined_knowledge = (\<lambda>tr q. []),
      get_client = (\<lambda>tr. True),
      chat_completion = (\<lambda>tr msgs mt t. Inr ''Okay.'')\<rparr>"

text \<open>A model that always gives the same reply, and sessions to run it on.\<close>

definition tagging_world :: "string \<Rightarrow> world" where
  "tagging_world reply = example_world\<lparr>chat_completion := (\<lambda>tr msgs mt t. Inr reply)\<rparr>"

definition ticketed_session :: session where
  "ticketed_session = default_session\<lparr>ticket_id := Some ''111'', lookup_done := True\<rparr>"

definition named_session :: session where
  "named_session = default_session\<lparr>contact_name := Some ''Alice'', contact_id := Some 7,
     lookup_done := True\<rparr>"

text \<open>A call of the reply generator for a caller of the given name, and a session so named.\<close>

definition example_args :: "string option \<Rightarrow> gen_args" where
  "example_args name = \<lparr>g_issue = ''help me'', g_kb = [], g_history = [], g_contact_name = name,
     g_recent_tickets = [], g_active_ticket_id = None, g_phone = Some ''15551234567'',
     g_max_tokens = 600, g_temperature = 3\<rparr>"

definition spoken :: "string \<Rightarrow> asr_request" where
  "spoken text = \<lparr>r_uuid = Some ''abc'', r_audio = Some text, r_recording_url = None\<rparr>"

section \<open>Streaming turn-taking (\<open>DeepgramStreamer\<close> in \<open>app/groq.py\<close>)\<close>

text \<open>
  \<open>_silence_timer\<close> is \<open>None\<close>, a timer that has been started and has not fired, or a
  timer object whose callback has run.
\<close>

datatype timer = No_Timer | Pending | Fired

text \<open>The fields the turn-taking logic uses; a callback field says whether one is set.\<close>

record streamer =
  current_utterance :: string
  final_transcript :: string
  silence_timer :: timer
  speech_ended_callback :: bool
  barge_in_callback :: bool

text \<open>
  What reaches the streamer: a recognition result with its transcript (if any) and
  \<open>is_final\<close>, or the running timer reaching the silence threshold.  What it calls:
  the speech-ended callback with the utterance, or the barge-in callback.
\<close>

datatype stream_event = Result "string option" bool | Timer_Elapsed

datatype callback = Speech_Ended string | Barge_In

definition cancel_silence_timer :: "streamer \<Rightarrow> streamer" where
  "cancel_silence_timer s = (if silence_timer s \<noteq> No_Timer then s\<lparr>silence_timer := No_Timer\<rparr> else s)"

definition start_silence_timer :: "streamer \<Rightarrow> streamer" where
  "start_silence_timer s = (cancel_silence_timer s)\<lparr>silence_timer := Pending\<rparr>"

definition on_silence_detected :: "streamer \<Rightarrow> streamer \<times> callback list" where
  "on_silence_detected s =
     (if current_utterance s = [] then (s, [])
      else
        let transcript = current_utterance s;
            s1 = s\<lparr>current_utterance := []\<rparr>
        in (s1, if speech_ended_callback s1 then [Speech_Ended transcript] else []))"

definition process_result :: "streamer \<Rightarrow> string option \<Rightarrow> bool \<Rightarrow> streamer \<times> callback list" where
  "process_result s transcript is_final =
     (case nonempty transcript of
        None \<Rightarrow> (s, [])
      | Some t \<Rightarrow>
          if 0 < length (strip t) then
            (if is_final then
               (start_silence_timer
                  (s\<lparr>current_utterance := current_utterance s @ strip t @ '' '',
                     final_transcript := final_transcript s @ t @ '' ''\<rparr>), [])
             else
               (cancel_silence_timer s,
                if barge_in_callback s \<and> 3 < length (strip t) then [Barge_In] else []))
          else (s, []))"

text \<open>A timer fires only while it is pending; its callback is \<open>_on_silence_detected\<close>.\<close>

definition stream_step :: "streamer \<Rightarrow> stream_event \<Rightarrow> streamer \<times> callback list" where
  "stream_step s e =
     (case e of
        Result transcript is_final \<Rightarrow> process_result s transcript is_final
      | Timer_Elapsed \<Rightarrow>
          if silence_timer s = Pending then on_silence_detected (s\<lparr>silence_timer := Fired\<rparr>)
          else (s, []))"

fun run_stream :: "streamer \<Rightarrow> stream_event list \<Rightarrow> streamer \<times> callback list" where
  "run_stream s [] = (s, [])"
| "run_stream s (e # es) =
     (let (s1, out1) = stream_step s e; (s2, out2) = run_stream s1 es in (s2, out1 @ out2))"

text \<open>The streamer after \<open>__init__\<close> and the two \<open>set_..._callback\<close> calls of the stream handler.\<close>

definition fresh_streamer :: streamer where
  "fresh_streamer = \<lparr>current_utterance = [], final_transcript = [], silence_timer = No_Timer,
     speech_ended_callback = True, barge_in_callback = True\<rparr>"

text \<open>The fragments the accumulator takes from a run of final results: trimmed, blank ones left out.\<close>

definition fragments :: "string list \<Rightarrow> string list" where
  "fragments fs = filter (\<lambda>f. f \<noteq> []) (map strip fs)"

definition finals :: "string list \<Rightarrow> stream_event list" where
  "finals fs = map (\<lambda>f. Result (Some f) True) fs"

section \<open>Turns in flight\<close>

subsection \<open>Batch mode: webhooks that arrive while a turn is being processed\<close>

text \<open>
  A handler whose guard admitted it has set \<open>processing\<close> and is then suspended in its
  collaborators' calls; other webhooks are handled meanwhile.  The state is the store,
  the admitted requests whose turn has not finished, the responses sent and the events.
  \<open>Arrive\<close> runs a handler up to its guard; \<open>Complete i\<close> lets the \<open>i\<close>-th admitted handler
  run its turn to the response.
\<close>

record batch_state =
  b_calls :: store
  b_pending :: "asr_request list"
  b_responses :: "(call_id \<times> response) list"
  b_trace :: "event list"

datatype batch_event = Arrive asr_request | Complete nat

definition remove_nth :: "nat \<Rightarrow> 'a list \<Rightarrow> 'a list" where
  "remove_nth i xs = take i xs @ drop (Suc i) xs"

definition batch_step :: "config \<Rightarrow> world \<Rightarrow> batch_state \<Rightarrow> batch_event \<Rightarrow> batch_state" where
  "batch_step cfg w st ev =
     (case ev of
        Arrive req \<Rightarrow>
          (case asr_admit (b_calls st) req of
             (Some resp, calls1) \<Rightarrow>
               st\<lparr>b_calls := calls1, b_responses := b_responses st @ [(r_uuid req, resp)]\<rparr>
           | (None, calls1) \<Rightarrow> st\<lparr>b_calls := calls1, b_pending := b_pending st @ [req]\<rparr>)
      | Complete i \<Rightarrow>
          if i < length (b_pending st) then
            (let req = b_pending st ! i;
                 (resp, calls1, tr) = asr_turn cfg w (b_calls st) req
             in st\<lparr>b_calls := calls1, b_pending := remove_nth i (b_pending st),
                   b_responses := b_responses st @ [(r_uuid req, resp)],
                   b_trace := b_trace st @ tr\<rparr>)
          else st)"

fun batch_run :: "config \<Rightarrow> world \<Rightarrow> batch_state \<Rightarrow> batch_event list \<Rightarrow> batch_state" where
  "batch_run cfg w st [] = st"
| "batch_run cfg w st (ev # evs) = batch_run cfg w (batch_step cfg w st ev) evs"

text \<open>The turns in flight for a call, and whether its session says \<open>processing\<close>.\<close>

definition in_flight :: "batch_state \<Rightarrow> call_id \<Rightarrow> nat" where
  "in_flight st u = length (filter (\<lambda>req. r_uuid req = u) (b_pending st))"

definition is_processing :: "store \<Rightarrow> call_id \<Rightarrow> bool" where
  "is_processing calls u = (case calls u of None \<Rightarrow> False | Some cs \<Rightarrow> processing cs)"

definition batch_start :: "store \<Rightarrow> batch_state" where
  "batch_start calls = \<lparr>b_calls = calls, b_pending = [], b_responses = [], b_trace = []\<rparr>"

subsection \<open>Streaming mode (\<open>voice_stream\<close> and \<open>process_and_respond\<close> in \<open>app/main.py\<close>)\<close>

text \<open>
  \<open>re.findall(r'\[(ACTION|SENTIMENT):\s*([^\]]+)\]', s)\<close>: the two groups of every match,
  from the left, without overlap.  \<open>re.sub(r'\[(ACTION|SENTIMENT):[^\]]+\]', '', s)\<close>
  removes the same stretches of text.
\<close>

definition tag_at :: "string \<Rightarrow> ((string \<times> string) \<times> nat) option" where
  "tag_at s =
     (let opened = (case after_prefix ''[ACTION:'' s of
                      Some r \<Rightarrow> Some (''ACTION'', r)
                    | None \<Rightarrow> (case after_prefix ''[SENTIMENT:'' s of
                                 Some r \<Rightarrow> Some (''SENTIMENT'', r)
                               | None \<Rightarrow> None))
      in case opened of
           None \<Rightarrow> None
         | Some (kind, r) \<Rightarrow>
             let seg = takeWhile (\<lambda>c. c \<noteq> CHR '']'') r
             in if seg \<noteq> [] \<and> prefix '']'' (drop (length seg) r)
                then Some ((kind, if dropWhile is_space seg = [] then [last seg]
                                  else dropWhile is_space seg),
                           length kind + 2 + length seg + 1)
                else None)"

fun find_all :: "(string \<Rightarrow> ('a \<times> nat) option) \<Rightarrow> nat \<Rightarrow> string \<Rightarrow> 'a list" where
  "find_all m k [] = []"
| "find_all m (Suc k) (c # cs) = find_all m k cs"
| "find_all m 0 (c # cs) =
     (case m (c # cs) of
        Some (g, Suc n) \<Rightarrow> g # find_all m n cs
      | _ \<Rightarrow> find_all m 0 cs)"

text \<open>
  A scheduled \<open>process_and_respond\<close>: its arguments, how far it has run (it is suspended
  in \<open>agent_response\<close> and in \<open>inject_vonage_tts\<close>), the reply once there is one, and the
  \<open>region_url\<close> it read.
\<close>

datatype stage = Scheduled | Awaiting_Reply | Awaiting_Speech

record coroutine =
  co_transcript :: string
  co_uuid :: call_id
  co_stage :: stage
  co_reply :: string
  co_region :: "string option"

text \<open>A background \<open>execute_ai_actions\<close> task that has been created and not yet run.\<close>

record executor_task =
  e_uuid :: call_id
  e_tags :: "(string \<times> string) list"
  e_region :: "string option"
  e_text_len :: nat

text \<open>
  The module's globals, the coroutines and tasks on the event loop, the store and the
  events.  \<open>main_loop_running\<close> is \<open>_main_loop and _main_loop.is_running()\<close>.
\<close>

record app_state =
  processing_ai :: bool
  main_loop_running :: bool
  current_call_uuid :: call_id
  coroutines :: "coroutine list"
  executors :: "executor_task list"
  s_calls :: store
  s_trace :: "event list"

text \<open>
  A connection is accepted; a text message arrives on one, with the uuid it carries if
  any; a streamer calls \<open>on_speech_ended\<close>; the \<open>i\<close>-th coroutine runs to its next
  suspension or its end; the \<open>i\<close>-th executor task runs.
\<close>

datatype app_event =
    Ws_Connect
  | Ws_Text "string option"
  | On_Speech_Ended string
  | Resume nat
  | Run_Executor nat

definition on_speech_ended :: "app_state \<Rightarrow> string \<Rightarrow> app_state" where
  "on_speech_ended st transcript =
     (if processing_ai st then st
      else if main_loop_running st then
        st\<lparr>processing_ai := True,
           coroutines := coroutines st @
             [\<lparr>co_transcript = transcript, co_uuid = current_call_uuid st, co_stage = Scheduled,
               co_reply = [], co_region = None\<rparr>]\<rparr>
      else st\<lparr>processing_ai := False\<rparr>)"

text \<open>The end of \<open>process_and_respond\<close>: the \<open>finally\<close> clause.\<close>

definition finish :: "nat \<Rightarrow> app_state \<Rightarrow> app_state" where
  "finish i st = st\<lparr>coroutines := remove_nth i (coroutines st), processing_ai := False\<rparr>"

definition update_nth :: "nat \<Rightarrow> 'a \<Rightarrow> 'a list \<Rightarrow> 'a list" where
  "update_nth i x xs = xs[i := x]"

definition resume :: "config \<Rightarrow> world \<Rightarrow> app_state \<Rightarrow> nat \<Rightarrow> app_state" where
  "resume cfg w st i =
     (if i < length (coroutines st) then
        (let co = coroutines st ! i; u = co_uuid co in
         case co_stage co of
           Scheduled \<Rightarrow>
             if \<not> truthy u then finish i st
             else
               let calls1 = append_history (s_calls st) u ''user'' (co_transcript co);
                   cs = cur calls1 u;
                   args = \<lparr>g_issue = co_transcript co, g_kb = [], g_history = history cs,
                           g_contact_name = contact_name cs, g_recent_tickets = recent_tickets cs,
                           g_active_ticket_id = ticket_id cs, g_phone = Some (phone cs),
                           g_max_tokens = 500, g_temperature = 2\<rparr>;
                   (ai_reply, tr1) = agent_response cfg w (s_trace st @ [Generate args]) args
               in st\<lparr>s_calls := calls1, s_trace := tr1,
                     coroutines := update_nth i (co\<lparr>co_stage := Awaiting_Reply, co_reply := ai_reply\<rparr>)
                                     (coroutines st)\<rparr>
         | Awaiting_Reply \<Rightarrow>
             let calls1 = append_history (s_calls st) u ''assistant'' (co_reply co);
                 clean_speech = strip (delete_matches (match_len tag_at) 0 (co_reply co));
                 region = region_url (cur calls1 u)
             in st\<lparr>s_calls := calls1, s_trace := s_trace st @ [Inject_Tts u clean_speech region],
                   coroutines := update_nth i (co\<lparr>co_stage := Awaiting_Speech, co_region := region\<rparr>)
                                   (coroutines st)\<rparr>
         | Awaiting_Speech \<Rightarrow>
             let all_tags = find_all tag_at 0 (co_reply co);
                 clean_speech = strip (delete_matches (match_len tag_at) 0 (co_reply co));
                 st1 = (if all_tags \<noteq> [] then
                          st\<lparr>executors := executors st @
                               [\<lparr>e_uuid = u, e_tags = all_tags, e_region = co_region co,
                                 e_text_len = length clean_speech\<rparr>]\<rparr>
                        else st)
             in finish i st1)
      else st)"

definition run_executor :: "config \<Rightarrow> world \<Rightarrow> app_state \<Rightarrow> nat \<Rightarrow> app_state" where
  "run_executor cfg w st i =
     (if i < length (executors st) then
        (let t = executors st ! i;
             (x, err) = execute_ai_actions cfg w (s_calls st) (e_uuid t) (e_tags t)
                          (cur (s_calls st) (e_uuid t)) (e_region t) (e_text_len t)
         in st\<lparr>s_calls := x_calls x, s_trace := s_trace st @ x_trace x,
               executors := remove_nth i (executors st)\<rparr>)
      else st)"

definition app_step :: "config \<Rightarrow> world \<Rightarrow> app_state \<Rightarrow> app_event \<Rightarrow> app_state" where
  "app_step cfg w st ev =
     (case ev of
        Ws_Connect \<Rightarrow> st\<lparr>processing_ai := False, current_call_uuid := None, main_loop_running := True\<rparr>
      | Ws_Text possible_uuid \<Rightarrow>
          if truthy possible_uuid then st\<lparr>current_call_uuid := possible_uuid\<rparr> else st
      | On_Speech_Ended transcript \<Rightarrow> on_speech_ended st transcript
      | Resume i \<Rightarrow> resume cfg w st i
      | Run_Executor i \<Rightarrow> run_executor cfg w st i)"

fun app_run :: "config \<Rightarrow> world \<Rightarrow> app_state \<Rightarrow> app_event list \<Rightarrow> app_state" where
  "app_run cfg w st [] = st"
| "app_run cfg w st (ev # evs) = app_run cfg w (app_step cfg w st ev) evs"

text \<open>The module as loaded: no connection yet, nothing scheduled.\<close>

definition app_start :: "store \<Rightarrow> app_state" where
  "app_start calls = \<lparr>processing_ai = False, main_loop_running = False, current_call_uuid = None,
     coroutines = [], executors = [], s_calls = calls, s_trace = []\<rparr>"

section \<open>The transcript window\<close>

lemma last_n_append_last_n: "last_n n (last_n n xs @ ys) = last_n n (xs @ ys)"
proof (cases "length xs \<le> n")
  case True
  then show ?thesis by (simp add: last_n_def)
next
  case False
  then have "length xs + length ys - n = length xs - n + length ys"
    by simp
  with False show ?thesis by (simp add: last_n_def add.commute)
qed

lemma turn_eta: "\<lparr>role = role t, content = content t\<rparr> = (t::turn)"
  by simp

lemma history_of_append_history:
  "history_of (append_history calls u (role t) (content t)) u
     = last_n 50 (history_of calls u @ [t])"
  by (simp add: append_history_def get_call_state_def set_call_state_def history_of_def
      default_session_def turn_eta split: option.splits)

lemma history_of_legacy_append_history:
  "legacy_history_of (legacy_append_history calls u (role t) (content t)) u
     = last_n 12 (legacy_history_of calls u @ [t])"
  by (simp add: legacy_append_history_def legacy_get_call_state_def legacy_set_call_state_def
      legacy_history_of_def legacy_default_session_def turn_eta split: option.splits)

lemma history_of_append_all:
  "history_of (append_all calls u ts) u
     = (if ts = [] then history_of calls u else last_n 50 (history_of calls u @ ts))"
proof (induction ts arbitrary: calls)
  case Nil
  show ?case by simp
next
  case (Cons t ts)
  let ?c1 = "append_history calls u (role t) (content t)"
  have h1: "history_of ?c1 u = last_n 50 (history_of calls u @ [t])"
    by (rule history_of_append_history)
  show ?case
  proof (cases "ts = []")
    case True
    then show ?thesis using h1 by simp
  next
    case False
    then have "history_of (append_all ?c1 u ts) u = last_n 50 (history_of ?c1 u @ ts)"
      using Cons.IH [of ?c1] by simp
    also have "\<dots> = last_n 50 ((history_of calls u @ [t]) @ ts)"
      unfolding h1 by (rule last_n_append_last_n)
    finally show ?thesis by simp
  qed
qed

lemma history_of_legacy_append_all:
  "legacy_history_of (legacy_append_all calls u ts) u
     = (if ts = [] then legacy_history_of calls u else last_n 12 (legacy_history_of calls u @ ts))"
proof (induction ts arbitrary: calls)
  case Nil
  show ?case by simp
next
  case (Cons t ts)
  let ?c1 = "legacy_append_history calls u (role t) (content t)"
  have h1: "legacy_history_of ?c1 u = last_n 12 (legacy_history_of calls u @ [t])"
    by (rule history_of_legacy_append_history)
  show ?case
  proof (cases "ts = []")
    case True
    then show ?thesis using h1 by simp
  next
    case False
    then have "legacy_history_of (legacy_append_all ?c1 u ts) u
        = last_n 12 (legacy_history_of ?c1 u @ ts)"
      using Cons.IH [of ?c1] by simp
    also have "\<dots> = last_n 12 ((legacy_history_of calls u @ [t]) @ ts)"
      unfolding h1 by (rule last_n_append_last_n)
    finally show ?thesis by simp
  qed
qed

lemma length_last_n: "length (last_n n xs) = min n (length xs)"
  by (simp add: last_n_def)

lemma suffix_last_n: "suffix (last_n n xs) xs"
  by (simp add: last_n_def suffix_drop)

text \<open>
  C5, as stated, fails for one of the two \<open>append_history\<close> it is about.  In the older
  agent thirteen appends to a new call leave twelve entries, the turns numbered 1 to 12:
  the turn numbered 0 is gone although the transcript is far shorter than 50.
\<close>

theorem legacy_window_counterexample:
  "length (numbered_turns 13) = 13
   \<and> legacy_history_of (legacy_append_all Map.empty (Some ''abc'') (numbered_turns 13)) (Some ''abc'')
       = tl (numbered_turns 13)
   \<and> legacy_history_of (legacy_append_all Map.empty (Some ''abc'') (numbered_turns 13)) (Some ''abc'')
       \<noteq> numbered_turns 13"
  by code_simp

text \<open>
  C5, amended.  After any sequence of appends to a call, the stored transcript is the
  earlier transcript followed by the appended turns, in the order they were appended and
  each as the pair it was appended as, cut down from the front to its last 50 entries in
  \<open>app/state.py\<close> and to its last 12 entries in the older \<open>voice-agent/app/state.py\<close>.
  So it is never longer than the window, and it is the whole sequence while that is no
  longer than the window.  This holds after each append, since every prefix of the
  sequence is such a sequence.
\<close>

theorem append_history_window:
  "history_of (append_all calls u ts) u
     = (if ts = [] then history_of calls u
        else drop (length (history_of calls u @ ts) - 50) (history_of calls u @ ts))
   \<and> history_of (append_history calls u r c) u
     = drop (length (history_of calls u) + 1 - 50) (history_of calls u @ [\<lparr>role = r, content = c\<rparr>])
   \<and> length (history_of (append_history calls u r c) u) = min 50 (length (history_of calls u) + 1)
   \<and> legacy_history_of (legacy_append_all lcalls u ts) u
     = (if ts = [] then legacy_history_of lcalls u
        else drop (length (legacy_history_of lcalls u @ ts) - 12) (legacy_history_of lcalls u @ ts))
   \<and> legacy_history_of (legacy_append_history lcalls u r c) u
     = drop (length (legacy_history_of lcalls u) + 1 - 12)
         (legacy_history_of lcalls u @ [\<lparr>role = r, content = c\<rparr>])
   \<and> length (legacy_history_of (legacy_append_history lcalls u r c) u)
     = min 12 (length (legacy_history_of lcalls u) + 1)"
proof -
  have a: "history_of (append_history calls u r c) u
      = last_n 50 (history_of calls u @ [\<lparr>role = r, content = c\<rparr>])"
    using history_of_append_history [of calls u "\<lparr>role = r, content = c\<rparr>"] by simp
  have b: "legacy_history_of (legacy_append_history lcalls u r c) u
      = last_n 12 (legacy_history_of lcalls u @ [\<lparr>role = r, content = c\<rparr>])"
    using history_of_legacy_append_history [of lcalls u "\<lparr>role = r, content = c\<rparr>"] by simp
  show ?thesis
    unfolding a b history_of_append_all history_of_legacy_append_all
    by (simp add: last_n_def min_def)
qed

text \<open>
  On a new call: 52 appends leave the 50 turns numbered 2 to 51 in the newer agent, and
  the 12 turns numbered 40 to 51 in the older one.
\<close>

theorem append_history_window_witness:
  "history_of (append_all Map.empty (Some ''abc'') (numbered_turns 52)) (Some ''abc'')
     = drop 2 (numbered_turns 52)
   \<and> legacy_history_of (legacy_append_all Map.empty (Some ''abc'') (numbered_turns 52)) (Some ''abc'')
     = drop 40 (numbered_turns 52)"
proof -
  have n: "numbered_turns 52 \<noteq> []" "length (numbered_turns 52) = 52"
    by (simp_all add: numbered_turns_def)
  show ?thesis
    using append_history_window [of Map.empty "Some ''abc''" "numbered_turns 52" _ _ Map.empty] n
    by (simp add: history_of_def legacy_history_of_def)
qed

section \<open>The batch turn pipeline: properties\<close>


lemma get_call_state_snd: "snd (get_call_state calls u) u = Some (fst (get_call_state calls u))"
  by (simp add: get_call_state_def split: option.splits)

lemma get_call_state_Some: "calls u = Some cs \<Longrightarrow> get_call_state calls u = (cs, calls)"
  by (simp add: get_call_state_def)

lemma get_call_state_again:
  "get_call_state (snd (get_call_state calls u)) u = (fst (get_call_state calls u), snd (get_call_state calls u))"
  by (simp add: get_call_state_def split: option.splits)

lemma cur_put: "cur (put u f calls) u = f (cur calls u)"
  by (simp add: cur_def put_def set_call_state_def get_call_state_def)

lemma cur_append_history:
  "cur (append_history calls u r c) u
     = (cur calls u)\<lparr>history := last_n 50 (history (cur calls u) @ [\<lparr>role = r, content = c\<rparr>])\<rparr>"
  by (simp add: cur_def append_history_def set_call_state_def get_call_state_def split: option.splits)

lemma wait_for_lookup_fixed:
  "calls u = Some cs \<Longrightarrow> wait_for_lookup calls u cs n = (cs, calls)"
proof (induction calls u cs n rule: wait_for_lookup.induct)
  case (1 calls u cs n)
  show ?case
  proof (cases "\<not> lookup_done cs \<and> n < 25")
    case True
    have g: "get_call_state calls u = (cs, calls)"
      using "1.prems" by (rule get_call_state_Some)
    have "wait_for_lookup calls u cs (n + 1) = (cs, calls)"
      using "1.IH" [OF True g [symmetric] refl] "1.prems" by simp
    then show ?thesis
      using True g by (subst wait_for_lookup.simps) simp
  next
    case False
    then show ?thesis by (subst wait_for_lookup.simps) auto
  qed
qed

lemma handle_voice_asr_unfold:
  "handle_voice_asr cfg w calls req =
     (let u = r_uuid req; calls0 = snd (get_call_state calls u); cs = cur calls u in
      if processing cs then (Ncco [], calls0, [])
      else asr_pipeline cfg w u (noise_filter (fst (asr_stage w req [])))
             (put u (\<lambda>cs. cs\<lparr>processing := True\<rparr>) calls0) (snd (asr_stage w req [])))"
proof -
  obtain cs0 calls0 where g: "get_call_state calls (r_uuid req) = (cs0, calls0)"
    by (cases "get_call_state calls (r_uuid req)")
  have s: "calls0 (r_uuid req) = Some cs0"
    using get_call_state_snd [of calls "r_uuid req"] g by simp
  have wl: "wait_for_lookup calls0 (r_uuid req) cs0 0 = (cs0, calls0)"
    using s by (rule wait_for_lookup_fixed)
  show ?thesis
    using g wl
    by (simp add: handle_voice_asr_def asr_admit_def asr_turn_def is_empty_dict_def cur_def Let_def
        split: prod.splits)
qed


lemma put_Some: "put u f calls u = Some (f (cur calls u))"
  by (simp add: put_def set_call_state_def)

lemma trace_sentiment_stage: "p_trace (sentiment_stage u p) = p_trace p"
  by (simp add: sentiment_stage_def split: option.splits)

lemma trace_create_stage: "\<exists>r. p_trace (create_stage w u p) = p_trace p @ r"
  by (simp add: create_stage_def Let_def split: option.splits)

lemma trace_use_stage: "p_trace (use_stage u p) = p_trace p"
  by (simp add: use_stage_def split: option.splits)

lemma trace_resolve_stage: "resolve_stage p = Inr p2 \<Longrightarrow> \<exists>r. p_trace p2 = p_trace p @ r"
  by (auto simp: resolve_stage_def split: option.splits sum.splits)

lemma trace_name_stage: "\<exists>r. p_trace (name_stage u p) = p_trace p @ r"
  by (simp add: name_stage_def Let_def split: option.splits)

lemma trace_respond_stage: "snd (snd (respond_stage cfg u p)) = p_trace p"
  by (simp add: respond_stage_def Let_def)

lemma trace_asr_actions: "\<exists>r. snd (snd (asr_actions cfg w u p)) = p_trace p @ r"
proof -
  let ?p1 = "use_stage u (create_stage w u (sentiment_stage u p))"
  obtain r1 where 1: "p_trace ?p1 = p_trace p @ r1"
    using trace_create_stage [of w u "sentiment_stage u p"]
    by (auto simp: trace_sentiment_stage trace_use_stage)
  show ?thesis
  proof (cases "resolve_stage ?p1")
    case (Inl e)
    then show ?thesis by (simp add: asr_actions_def Let_def 1)
  next
    case (Inr p2)
    obtain r2 where 2: "p_trace p2 = p_trace p @ r1 @ r2"
      using trace_resolve_stage [OF Inr] 1 by auto
    obtain r3 where 3: "p_trace (name_stage u p2) = p_trace p @ r1 @ r2 @ r3"
      using trace_name_stage [of u p2] 2 by auto
    show ?thesis
      using Inr by (simp add: asr_actions_def Let_def trace_respond_stage 3)
  qed
qed

lemma trace_agent_response: "\<exists>r. snd (agent_response cfg w tr args) = tr @ r"
  by (simp add: agent_response_def Let_def split: sum.splits)

lemma trace_asr_generate:
  "\<exists>a r pre. p_trace (asr_generate cfg w u speech_text calls1 tr) = pre @ Generate a # r
     \<and> g_issue a = speech_text \<and> (pre = tr \<or> pre = tr @ [Fetch_Knowledge speech_text])"
proof -
  let ?skip = "length speech_text < 10 \<or> keep_word_space (strip (lower speech_text)) \<in> set confirmations"
  let ?kb = "if ?skip then [] else fetch_combined_knowledge w tr speech_text"
  let ?tr1 = "if ?skip then tr else tr @ [Fetch_Knowledge speech_text]"
  let ?cs = "cur calls1 u"
  let ?args = "\<lparr>g_issue = speech_text, g_kb = ?kb, g_history = history ?cs,
                    g_contact_name = contact_name ?cs, g_recent_tickets = recent_tickets ?cs,
                    g_active_ticket_id = ticket_id ?cs, g_phone = Some (phone ?cs),
                    g_max_tokens = 600, g_temperature = 3\<rparr>"
  obtain r where r: "snd (agent_response cfg w (?tr1 @ [Generate ?args]) ?args)
      = (?tr1 @ [Generate ?args]) @ r"
    using trace_agent_response [of cfg w "?tr1 @ [Generate ?args]" ?args] by blast
  have "p_trace (asr_generate cfg w u speech_text calls1 tr)
      = snd (agent_response cfg w (?tr1 @ [Generate ?args]) ?args)"
    by (simp add: asr_generate_def Let_def split: prod.splits)
  then have "p_trace (asr_generate cfg w u speech_text calls1 tr) = ?tr1 @ Generate ?args # r"
    using r by simp
  moreover have "g_issue ?args = speech_text" by simp
  moreover have "?tr1 = tr \<or> ?tr1 = tr @ [Fetch_Knowledge speech_text]" by simp
  ultimately show ?thesis by blast
qed

lemma asr_pipeline_error_tag:
  "speech_text \<in> set asr_error_tags \<Longrightarrow>
   asr_pipeline cfg w u speech_text calls tr =
     (Ncco [Talk apology True, Input_Speech (public_url cfg @ ''/voice/asr'') 15],
      put u (\<lambda>cs. cs\<lparr>processing := False\<rparr>) (append_history calls u ''user'' speech_text), tr)"
  by (simp add: asr_pipeline_def Let_def)

lemma asr_pipeline_generates:
  "speech_text \<notin> set asr_error_tags \<Longrightarrow>
   \<exists>a r pre. snd (snd (asr_pipeline cfg w u speech_text calls tr)) = pre @ Generate a # r
     \<and> g_issue a = speech_text \<and> (pre = tr \<or> pre = tr @ [Fetch_Knowledge speech_text])"
proof -
  assume ne: "speech_text \<notin> set asr_error_tags"
  let ?p = "asr_generate cfg w u speech_text (append_history calls u ''user'' speech_text) tr"
  have e: "asr_pipeline cfg w u speech_text calls tr = asr_actions cfg w u ?p"
    using ne by (simp add: asr_pipeline_def Let_def)
  obtain r where r: "snd (snd (asr_pipeline cfg w u speech_text calls tr)) = p_trace ?p @ r"
    using trace_asr_actions [of cfg w u ?p] unfolding e by blast
  obtain a r0 pre where g: "p_trace ?p = pre @ Generate a # r0" "g_issue a = speech_text"
      "pre = tr \<or> pre = tr @ [Fetch_Knowledge speech_text]"
    using trace_asr_generate [of cfg w u speech_text "append_history calls u ''user'' speech_text" tr]
    by blast
  have "snd (snd (asr_pipeline cfg w u speech_text calls tr)) = pre @ Generate a # (r0 @ r)"
    using r g(1) by simp
  then show ?thesis using g(2,3) by blast
qed

lemma asr_stage_trace: "snd (asr_stage w req []) = [] \<or> (\<exists>a. snd (asr_stage w req []) = [Transcribe a])"
  by (simp add: asr_stage_def Let_def split: option.splits sum.splits)

lemma noise_filter_error_tag: "s \<in> set asr_error_tags \<Longrightarrow> noise_filter s = s"
  by (simp add: noise_filter_def)

lemma silence_not_error: "''[SILENCE]'' \<notin> set asr_error_tags"
  by (simp add: asr_error_tags_def)


lemma respond_stage_Ncco: "\<exists>ncco. fst (respond_stage cfg u p) = Ncco ncco"
  by (simp add: respond_stage_def Let_def)

lemma respond_stage_processing:
  "\<not> processing (cur (fst (snd (respond_stage cfg u p))) u)"
  by (simp add: respond_stage_def Let_def cur_put)

lemma asr_actions_Ncco: "\<exists>ncco. fst (asr_actions cfg w u p) = Ncco ncco"
  by (simp add: asr_actions_def Let_def respond_stage_Ncco split: sum.splits)

lemma asr_actions_processing: "\<not> processing (cur (fst (snd (asr_actions cfg w u p))) u)"
  by (simp add: asr_actions_def Let_def respond_stage_processing cur_put split: sum.splits)

lemma asr_pipeline_Ncco: "\<exists>ncco. fst (asr_pipeline cfg w u s calls tr) = Ncco ncco"
  by (simp add: asr_pipeline_def Let_def asr_actions_Ncco)

lemma asr_pipeline_processing: "\<not> processing (cur (fst (snd (asr_pipeline cfg w u s calls tr))) u)"
  by (simp add: asr_pipeline_def Let_def asr_actions_processing cur_put)

lemma cur_Some: "calls u = Some cs \<Longrightarrow> cur calls u = cs"
  by (simp add: cur_def get_call_state_def)

lemma respond_stage_keeps_key: "\<exists>cs. fst (snd (respond_stage cfg u p)) u = Some cs"
  by (simp add: respond_stage_def Let_def put_Some)

lemma asr_actions_keeps_key: "\<exists>cs. fst (snd (asr_actions cfg w u p)) u = Some cs"
  by (simp add: asr_actions_def Let_def respond_stage_keeps_key put_Some split: sum.splits)

lemma asr_pipeline_keeps_key: "\<exists>cs. fst (snd (asr_pipeline cfg w u s calls tr)) u = Some cs"
proof (cases "s \<in> set asr_error_tags")
  case True
  then show ?thesis by (simp add: asr_pipeline_error_tag put_Some)
next
  case False
  then show ?thesis
    by (simp add: asr_pipeline_def Let_def asr_actions_keeps_key)
qed

lemma handle_voice_asr_never_not_found:
  "(\<exists>ncco. fst (handle_voice_asr cfg w calls req) = Ncco ncco)
   \<and> (\<exists>cs. fst (snd (handle_voice_asr cfg w calls req)) (r_uuid req) = Some cs)"
  by (simp add: handle_voice_asr_unfold Let_def asr_pipeline_Ncco asr_pipeline_keeps_key
      get_call_state_snd)

text \<open>
  C7.  The claim is that an ASR webhook for a call id without a session is answered with
  not-found and creates nothing.  The handler does test \<open>not call_state\<close>, but
  \<open>get_call_state\<close> has by then created the session, so the test never holds: on the
  empty store the webhook for the unknown id \<open>abc\<close> gets an ordinary turn (here the
  apology for missing audio, followed by a new input action), and the store holds a
  session for \<open>abc\<close> afterwards.
\<close>

theorem asr_unknown_call_id:
  "handle_voice_asr example_config example_world Map.empty
       \<lparr>r_uuid = Some ''abc'', r_audio = None, r_recording_url = None\<rparr>
     = (Ncco [Talk apology True, Input_Speech ''https://agent.example/voice/asr'' 15],
        [Some ''abc'' \<mapsto> default_session\<lparr>history := [\<lparr>role = ''user'', content = ''[NO_AUDIO]''\<rparr>]\<rparr>],
        [])"
  by (simp add: handle_voice_asr_unfold Let_def cur_def get_call_state_def asr_stage_def
      nonempty_def truthy_def noise_filter_def asr_error_tags_def asr_pipeline_def
      append_history_def set_call_state_def put_def default_session_def last_n_def
      example_config_def)

text \<open>
  C3.  For a handler that passes the processing guard: when the text the ASR step yields
  is one of the sentinels \<open>[ASR_FAILED]\<close>, \<open>[ASR_ERROR]\<close>, \<open>[NO_AUDIO]\<close>, the response
  is the fixed apology followed by a new input action, no call of the reply generator is
  among the events, and the session's \<open>processing\<close> is false again; when the noise filter
  yields \<open>[SILENCE]\<close>, the reply generator is called with that text as the issue.  The
  filter yields \<open>[SILENCE]\<close> for every text that is no error sentinel and is empty,
  shorter than two characters, shorter than five and not whitelisted, or a known noise
  artifact.
\<close>

theorem asr_failure_vs_silence:
  assumes np: "\<not> processing (cur calls (r_uuid req))"
  shows "(fst (asr_stage w req []) \<in> set asr_error_tags \<longrightarrow>
            fst (handle_voice_asr cfg w calls req)
              = Ncco [Talk apology True, Input_Speech (public_url cfg @ ''/voice/asr'') 15]
            \<and> (\<forall>a. Generate a \<notin> set (snd (snd (handle_voice_asr cfg w calls req))))
            \<and> \<not> processing (cur (fst (snd (handle_voice_asr cfg w calls req))) (r_uuid req)))
       \<and> (noise_filter (fst (asr_stage w req [])) = ''[SILENCE]'' \<longrightarrow>
            (\<exists>a pre r. snd (snd (handle_voice_asr cfg w calls req)) = pre @ Generate a # r
               \<and> g_issue a = ''[SILENCE]''))
       \<and> (s \<notin> set asr_error_tags
            \<and> (s = [] \<or> length s < 2
                 \<or> (length s < 5 \<and> keep_word_space (strip (lower s)) \<notin> set whitelist)
                 \<or> keep_word_space (strip (lower s)) \<in> set noise_artifacts)
          \<longrightarrow> noise_filter s = ''[SILENCE]'')"
proof (intro conjI impI)
  let ?u = "r_uuid req"
  let ?t = "fst (asr_stage w req [])"
  let ?calls2 = "put ?u (\<lambda>cs. cs\<lparr>processing := True\<rparr>) (snd (get_call_state calls ?u))"
  have h: "handle_voice_asr cfg w calls req
      = asr_pipeline cfg w ?u (noise_filter ?t) ?calls2 (snd (asr_stage w req []))"
    using np by (simp add: handle_voice_asr_unfold Let_def)
  {
    assume e: "?t \<in> set asr_error_tags"
    then have h2: "handle_voice_asr cfg w calls req
      = (Ncco [Talk apology True, Input_Speech (public_url cfg @ ''/voice/asr'') 15],
         put ?u (\<lambda>cs. cs\<lparr>processing := False\<rparr>) (append_history ?calls2 ?u ''user'' ?t),
         snd (asr_stage w req []))"
      using asr_pipeline_error_tag [of ?t cfg w ?u ?calls2 "snd (asr_stage w req [])"]
      by (simp add: h noise_filter_error_tag)
    show "fst (handle_voice_asr cfg w calls req)
        = Ncco [Talk apology True, Input_Speech (public_url cfg @ ''/voice/asr'') 15]"
      by (simp add: h2)
    show "\<forall>a. Generate a \<notin> set (snd (snd (handle_voice_asr cfg w calls req)))"
      using asr_stage_trace [of w req] by (auto simp: h2)
    show "\<not> processing (cur (fst (snd (handle_voice_asr cfg w calls req))) ?u)"
      by (simp add: h2 cur_put)
  }
  {
    assume sil: "noise_filter ?t = ''[SILENCE]''"
    show "\<exists>a pre r. snd (snd (handle_voice_asr cfg w calls req)) = pre @ Generate a # r
               \<and> g_issue a = ''[SILENCE]''"
      using asr_pipeline_generates [OF silence_not_error, of cfg w ?u ?calls2 "snd (asr_stage w req [])"]
      unfolding h sil by blast
  }
  {
    assume "s \<notin> set asr_error_tags
            \<and> (s = [] \<or> length s < 2
                 \<or> (length s < 5 \<and> keep_word_space (strip (lower s)) \<notin> set whitelist)
                 \<or> keep_word_space (strip (lower s)) \<in> set noise_artifacts)"
    then show "noise_filter s = ''[SILENCE]''"
      by (auto simp: noise_filter_def Let_def)
  }
qed

section \<open>The background action executor: properties\<close>

lemma split_on_nonempty: "split_on d s \<noteq> []"
  by (induction s) (auto split: list.splits)

lemma split_on_Cons:
  "split_on d (c # cs) =
     (if c = d then [] # split_on d cs else (c # hd (split_on d cs)) # tl (split_on d cs))"
  using split_on_nonempty [of d cs] by (cases "split_on d cs") auto

lemma part1_second:
  "part1 (a # map strip (split_on d rest)) = Some (strip (hd (split_on d rest)))"
  using split_on_nonempty [of d rest]
  by (cases "split_on d rest") (simp_all add: part1_def)

lemma exec_create_ticket:
  "exec_action cfg w u rg n (''ACTION'', ''CREATE_TICKET:'' @ rest) x =
     (let cs = x_cur x;
          desc = strip (hd (split_on (CHR '':'') rest));
          sent = (case sentiment cs of None \<Rightarrow> points_of ''Neutral'' | Some s \<Rightarrow> s);
          new_id = create_ticket w (x_trace x) u desc (from_key cs) sent (contact_id cs);
          x1 = emit (Create_Ticket u desc (from_key cs) sent (contact_id cs)) x
      in if truthy new_id then Inr (save u (x1\<lparr>x_cur := cs\<lparr>ticket_id := new_id\<rparr>\<rparr>)) else Inr x1)"
  by (simp add: exec_action_def part1_second Let_def split_on_Cons strip_def lstrip_def rstrip_def
      is_space_def upper_def upper_char_def code_def points_of_def)

lemma run_actions_append:
  "run_actions cfg w u rg n (pre @ post) x =
     (case run_actions cfg w u rg n pre x of
        (x1, None) \<Rightarrow> run_actions cfg w u rg n post x1
      | (x1, Some e) \<Rightarrow> (x1, Some e))"
  by (induction pre arbitrary: x) (auto split: sum.splits)

lemma resolve_abc_raises:
  "exec_action example_config example_world (Some ''abc'') None 0 (''ACTION'', ''RESOLVE_TICKET: abc'')
     \<lparr>x_cur = default_session, x_calls = Map.empty, x_trace = []\<rparr> = Inl ValueError"
  by (simp add: exec_action_def split_on_Cons strip_def lstrip_def rstrip_def is_space_def code_def
      upper_def upper_char_def part1_def nonempty_def py_int_def is_int_space_def is_digit_def Let_def
      points_of_def)

text \<open>
  C6, as stated, fails.  The loop over the tags sits inside one \<open>try\<close>, so the
  \<open>ValueError\<close> that \<open>int('abc')\<close> raises in the first action ends the loop: the ticket
  creation and the sentiment update that follow do not happen, although each happens
  when the list starts with it.
\<close>

theorem later_actions_skipped_counterexample:
  "snd (execute_ai_actions example_config example_world Map.empty (Some ''abc'')
          [(''ACTION'', ''RESOLVE_TICKET: abc''), (''ACTION'', ''CREATE_TICKET: printer jam''),
           (''SENTIMENT'', ''angry'')] default_session None 0) = Some ValueError
   \<and> x_trace (fst (execute_ai_actions example_config example_world Map.empty (Some ''abc'')
          [(''ACTION'', ''RESOLVE_TICKET: abc''), (''ACTION'', ''CREATE_TICKET: printer jam''),
           (''SENTIMENT'', ''angry'')] default_session None 0)) = []
   \<and> sentiment (x_cur (fst (execute_ai_actions example_config example_world Map.empty (Some ''abc'')
          [(''ACTION'', ''RESOLVE_TICKET: abc''), (''ACTION'', ''CREATE_TICKET: printer jam''),
           (''SENTIMENT'', ''angry'')] default_session None 0))) = Some (points_of ''Neutral'')
   \<and> x_trace (fst (execute_ai_actions example_config example_world Map.empty (Some ''abc'')
          [(''ACTION'', ''CREATE_TICKET: printer jam''), (''SENTIMENT'', ''angry'')]
          default_session None 0))
        = [Create_Ticket (Some ''abc'') ''printer jam'' None (points_of ''Neutral'') None]
   \<and> sentiment (x_cur (fst (execute_ai_actions example_config example_world Map.empty (Some ''abc'')
          [(''ACTION'', ''CREATE_TICKET: printer jam''), (''SENTIMENT'', ''angry'')]
          default_session None 0))) = Some (points_of ''Angry'')"
  by code_simp

lemma exec_action_raises_only_in_resolve:
  assumes "exec_action cfg w u rg n tag x = Inl e"
  shows "fst tag \<noteq> ''SENTIMENT''
       \<and> upper (case map strip (split_on (CHR '':'') (snd tag)) of [] \<Rightarrow> [] | p # _ \<Rightarrow> p)
           = points_of ''RESOLVE_TICKET''"
proof -
  obtain tt tc where tag: "tag = (tt, tc)" by (cases tag)
  let ?cmd = "upper (case map strip (split_on (CHR '':'') tc) of [] \<Rightarrow> [] | p # _ \<Rightarrow> p)"
  have 1: "tt \<noteq> ''SENTIMENT''"
    using assms unfolding tag exec_action_def by (auto simp: Let_def)
  have 2: "?cmd = points_of ''RESOLVE_TICKET''"
  proof (rule ccontr)
    assume "?cmd \<noteq> points_of ''RESOLVE_TICKET''"
    then have "\<exists>x'. exec_action cfg w u rg n (tt, tc) x = Inr x'"
      unfolding exec_action_def using 1
      by (simp add: Let_def split: option.splits)
    then show False using assms tag by simp
  qed
  show ?thesis using 1 2 tag by simp
qed

text \<open>
  C6, amended.  The executor runs the actions in list order.  When the action after a
  prefix that ran without exception raises, the executor returns normally with the state
  the prefix left and the exception logged, whatever follows in the list; when it does
  not raise, the executor goes on with the rest of the list from the state it produced.
  The one action that can raise is \<open>RESOLVE_TICKET\<close>, on a ticket id that \<open>int\<close> rejects;
  the failures of the collaborators are return values and end nothing.
\<close>

theorem executor_stops_at_first_exception:
  "(execute_ai_actions cfg w calls u pre cs rg n = (x1, None)
      \<and> exec_action cfg w u rg n tag x1 = Inl e
    \<longrightarrow> execute_ai_actions cfg w calls u (pre @ tag # post) cs rg n = (x1, Some e))
   \<and> (execute_ai_actions cfg w calls u pre cs rg n = (x1, None)
      \<and> exec_action cfg w u rg n tag x1 = Inr x2
    \<longrightarrow> execute_ai_actions cfg w calls u (pre @ tag # post) cs rg n
          = run_actions cfg w u rg n post x2)
   \<and> (exec_action cfg w u rg n tag x = Inl e
    \<longrightarrow> fst tag \<noteq> ''SENTIMENT''
        \<and> upper (case map strip (split_on (CHR '':'') (snd tag)) of [] \<Rightarrow> [] | p # _ \<Rightarrow> p)
            = points_of ''RESOLVE_TICKET'')"
  using exec_action_raises_only_in_resolve [of cfg w u rg n tag x e]
  by (simp add: execute_ai_actions_def run_actions_append)

theorem executor_stops_at_first_exception_witness:
  "execute_ai_actions example_config example_world Map.empty (Some ''abc'')
     ([] @ (''ACTION'', ''RESOLVE_TICKET: abc'')
        # [(''ACTION'', ''CREATE_TICKET: printer jam''), (''SENTIMENT'', ''angry'')])
     default_session None 0
   = (\<lparr>x_cur = default_session, x_calls = Map.empty, x_trace = []\<rparr>, Some ValueError)"
proof -
  have pre: "execute_ai_actions example_config example_world Map.empty (Some ''abc'') []
      default_session None 0 = (\<lparr>x_cur = default_session, x_calls = Map.empty, x_trace = []\<rparr>, None)"
    by (simp add: execute_ai_actions_def)
  show ?thesis
    using executor_stops_at_first_exception
      [where pre = "[]" and tag = "(''ACTION'', ''RESOLVE_TICKET: abc'')" and e = ValueError
         and cfg = example_config and w = example_world and calls = Map.empty
         and u = "Some ''abc''" and cs = default_session and rg = None and n = 0
         and ?x1.0 = "\<lparr>x_cur = default_session, x_calls = Map.empty, x_trace = []\<rparr>"
         and post = "[(''ACTION'', ''CREATE_TICKET: printer jam''), (''SENTIMENT'', ''angry'')]"]
      pre resolve_abc_raises
    by blast
qed

text \<open>
  C9.  The claim holds of the batch pipeline's handling of the tag but not of the
  executor, which applies every \<open>UPDATE_NAME\<close>: with the contact 7 already named Alice,
  the tag \<open>UPDATE_NAME: Bob\<close> renames the contact and overwrites the session's name.  On
  the same session the batch pipeline leaves both alone.
\<close>

theorem update_name_overwrites_real_name:
  "contact_name (x_cur (fst (execute_ai_actions example_config example_world
       [Some ''abc'' \<mapsto> named_session] (Some ''abc'') [(''ACTION'', ''UPDATE_NAME: Bob'')]
       named_session None 0))) = Some ''Bob''
   \<and> x_trace (fst (execute_ai_actions example_config example_world
       [Some ''abc'' \<mapsto> named_session] (Some ''abc'') [(''ACTION'', ''UPDATE_NAME: Bob'')]
       named_session None 0)) = [Update_Contact_Name 7 ''Bob'']
   \<and> contact_name (cur (p_calls (name_stage (Some ''abc'')
         \<lparr>p_reply = ''Hello Bob. [ACTION: UPDATE_NAME: Bob]'',
          p_calls = [Some ''abc'' \<mapsto> named_session], p_trace = []\<rparr>)) (Some ''abc'')) = Some ''Alice''
   \<and> p_trace (name_stage (Some ''abc'')
         \<lparr>p_reply = ''Hello Bob. [ACTION: UPDATE_NAME: Bob]'',
          p_calls = [Some ''abc'' \<mapsto> named_session], p_trace = []\<rparr>) = []"
  by code_simp


text \<open>
  C1, as stated, fails on both paths.  The session already holds the ticket id 111.  In
  the executor the tag \<open>CREATE_TICKET: second issue\<close> calls ticket creation and the id
  222 it returns replaces 111; in the batch pipeline a reply carrying the tag does the
  same.
\<close>

theorem create_ticket_again_counterexample:
  "ticket_id ticketed_session = Some ''111''
   \<and> x_trace (fst (execute_ai_actions example_config example_world
         [Some ''abc'' \<mapsto> ticketed_session] (Some ''abc'')
         [(''ACTION'', ''CREATE_TICKET: second issue'')] ticketed_session None 0))
       = [Create_Ticket (Some ''abc'') ''second issue'' None (points_of ''Neutral'') None]
   \<and> ticket_id (x_cur (fst (execute_ai_actions example_config example_world
         [Some ''abc'' \<mapsto> ticketed_session] (Some ''abc'')
         [(''ACTION'', ''CREATE_TICKET: second issue'')] ticketed_session None 0)))
       = Some ''222''
   \<and> last (snd (snd (handle_voice_asr example_config
         (tagging_world ''I have opened a new ticket. [ACTION: CREATE_TICKET: second issue]'')
         [Some ''abc'' \<mapsto> ticketed_session] (spoken ''my printer is broken too''))))
       = Create_Ticket (Some ''abc'') ''second issue'' (Some []) (points_of ''Neutral'') None
   \<and> ticket_id (cur (fst (snd (handle_voice_asr example_config
         (tagging_world ''I have opened a new ticket. [ACTION: CREATE_TICKET: second issue]'')
         [Some ''abc'' \<mapsto> ticketed_session] (spoken ''my printer is broken too''))))
         (Some ''abc''))
       = Some ''222''"
  by code_simp

text \<open>
  C1, amended.  A \<open>CREATE_TICKET\<close> tag calls ticket creation whether or not the session
  holds a ticket id, and an id that creation returns replaces the one the session held:
  in the executor for the tag as such (the session's id stays as it was when no id is
  returned), in the batch pipeline when the reply carries the tag.  The session holds
  one ticket id at a time.
\<close>

theorem create_ticket_tag_always_creates:
  "(let cs = x_cur x;
        desc = strip (hd (split_on (CHR '':'') rest));
        sent = (case sentiment cs of None \<Rightarrow> points_of ''Neutral'' | Some s \<Rightarrow> s);
        new_id = create_ticket w (x_trace x) u desc (from_key cs) sent (contact_id cs)
    in \<exists>x'. exec_action cfg w u rg n (''ACTION'', ''CREATE_TICKET:'' @ rest) x = Inr x'
          \<and> x_trace x' = x_trace x @ [Create_Ticket u desc (from_key cs) sent (contact_id cs)]
          \<and> ticket_id (x_cur x') = (if truthy new_id then new_id else ticket_id cs))
   \<and> (let cs = cur (p_calls p) u;
          sent = (case sentiment cs of None \<Rightarrow> points_of ''Neutral'' | Some s \<Rightarrow> s)
      in search_first (group_of (lazy_tag_at ''[ACTION: CREATE_TICKET: '')) (p_reply p) = Some d
         \<longrightarrow> p_trace (create_stage w u p)
               = p_trace p @ [Create_Ticket u d (Some (phone cs)) sent (contact_id cs)]
             \<and> (truthy (create_ticket w (p_trace p) u d (Some (phone cs)) sent (contact_id cs))
                  \<longrightarrow> ticket_id (cur (p_calls (create_stage w u p)) u)
                       = create_ticket w (p_trace p) u d (Some (phone cs)) sent (contact_id cs)))"
  unfolding exec_create_ticket Let_def
  by (simp add: emit_def save_def create_stage_def cur_put Let_def)

lemma second_issue_found:
  "search_first (group_of (lazy_tag_at ''[ACTION: CREATE_TICKET: ''))
     ''Done. [ACTION: CREATE_TICKET: second issue]'' = Some ''second issue''"
  by code_simp

theorem create_ticket_tag_always_creates_witness:
  "ticket_id (cur (p_calls (create_stage example_world (Some ''abc'')
       \<lparr>p_reply = ''Done. [ACTION: CREATE_TICKET: second issue]'',
        p_calls = [Some ''abc'' \<mapsto> ticketed_session], p_trace = []\<rparr>)) (Some ''abc''))
     = Some ''222''
   \<and> p_trace (create_stage example_world (Some ''abc'')
       \<lparr>p_reply = ''Done. [ACTION: CREATE_TICKET: second issue]'',
        p_calls = [Some ''abc'' \<mapsto> ticketed_session], p_trace = []\<rparr>)
     = [Create_Ticket (Some ''abc'') ''second issue'' (Some []) (points_of ''Neutral'') None]"
proof -
  show ?thesis
    using create_ticket_tag_always_creates
      [where p = "\<lparr>p_reply = ''Done. [ACTION: CREATE_TICKET: second issue]'',
                    p_calls = [Some ''abc'' \<mapsto> ticketed_session], p_trace = []\<rparr>"
         and u = "Some ''abc''" and w = example_world and d = "''second issue''"]
      second_issue_found
    by (simp add: Let_def cur_def get_call_state_def ticketed_session_def default_session_def
        example_world_def truthy_def nonempty_def)
qed


section \<open>The batch turn pipeline: examples\<close>

theorem asr_failure_vs_silence_witness:
  "fst (handle_voice_asr example_config example_world Map.empty
          \<lparr>r_uuid = Some ''abc'', r_audio = None, r_recording_url = None\<rparr>)
     = Ncco [Talk apology True, Input_Speech ''https://agent.example/voice/asr'' 15]
   \<and> (\<exists>a pre r. snd (snd (handle_voice_asr example_config example_world Map.empty (spoken ''uh'')))
          = pre @ Generate a # r \<and> g_issue a = ''[SILENCE]'')"
proof -
  have p: "\<not> processing (cur Map.empty (Some ''abc''))"
    by (simp add: cur_def get_call_state_def default_session_def)
  have a: "fst (asr_stage example_world
                 \<lparr>r_uuid = Some ''abc'', r_audio = None, r_recording_url = None\<rparr> [])
             \<in> set asr_error_tags"
    by (simp add: asr_stage_def truthy_def nonempty_def asr_error_tags_def)
  have b: "noise_filter (fst (asr_stage example_world (spoken ''uh'') [])) = ''[SILENCE]''"
    by code_simp
  show ?thesis
    using asr_failure_vs_silence
            [where calls = Map.empty and w = example_world and cfg = example_config
               and req = "\<lparr>r_uuid = Some ''abc'', r_audio = None, r_recording_url = None\<rparr>"] p a
          asr_failure_vs_silence
            [where calls = Map.empty and w = example_world and cfg = example_config
               and req = "spoken ''uh''"] p b
    by (simp add: example_config_def spoken_def)
qed

section \<open>Transfer and hangup\<close>






















lemma both_tags_response:
  "fst (handle_voice_asr example_config
          (tagging_world ''Transferring you now. [ACTION: TRANSFER] [ACTION: HANGUP]'')
          [Some ''abc'' \<mapsto> named_session] (spoken ''I want to talk to a person''))
     = Ncco [Talk ''Transferring you now.'' False,
             Connect_Phone ''14702834062'' ''+14702834062'' 60 ''https://agent.example/voice/events'']"
  by code_simp

section \<open>Contact names\<close>

lemma lower_Unknown: "lower ''Unknown'' = ''unknown''"
  by code_simp

lemma has_letter_Unknown: "has_letter ''Unknown''"
  by (simp add: has_letter_def is_ascii_letter_def code_def)

lemma has_letter_lower_unknown: "lower n = ''unknown'' \<Longrightarrow> n \<noteq> []"
  by (auto simp: lower_def)

lemma greeting_is_generic_or_valid:
  "greeting_for raw = generic_greeting
   \<or> (\<exists>m. raw = Some m \<and> is_valid_name (Some m)
         \<and> greeting_for raw = ''Hello '' @ m @ ''. Welcome back to Sandeza support. How can I help you today?'')"
  by (cases raw) (auto simp: greeting_for_def)

lemma lookup_stores_valid_name_only:
  "contact_name (cur (fst (background_freshdesk_lookup w calls u from_number tr)) u) = None
   \<or> is_valid_name (contact_name (cur (fst (background_freshdesk_lookup w calls u from_number tr)) u))
   \<or> contact_name (cur (fst (background_freshdesk_lookup w calls u from_number tr)) u) = contact_name (cur calls u)"
  by (auto simp: background_freshdesk_lookup_def Let_def cur_put split: option.splits)

lemma answer_response:
  "\<exists>g ws cid. fst (handle_voice_answer cfg w calls req in_time)
                 = Ncco [Talk g False, Connect_Websocket ws cid]
      \<and> (g = generic_greeting \<or> (\<exists>raw. g = greeting_for raw))"
  by (simp add: handle_voice_answer_def Let_def split: prod.splits) blast

lemma answer_greeting_generic_or_valid:
  "\<exists>g ws cid. fst (handle_voice_answer cfg w calls req in_time)
                 = Ncco [Talk g False, Connect_Websocket ws cid]
      \<and> (g = generic_greeting
           \<or> (\<exists>m. is_valid_name (Some m)
                 \<and> g = ''Hello '' @ m @ ''. Welcome back to Sandeza support. How can I help you today?''))"
proof -
  obtain g ws cid where r: "fst (handle_voice_answer cfg w calls req in_time)
                 = Ncco [Talk g False, Connect_Websocket ws cid]"
      and g: "g = generic_greeting \<or> (\<exists>raw. g = greeting_for raw)"
    using answer_response [of cfg w calls req in_time] by blast
  have "g = generic_greeting
           \<or> (\<exists>m. is_valid_name (Some m)
                 \<and> g = ''Hello '' @ m @ ''. Welcome back to Sandeza support. How can I help you today?'')"
    using g greeting_is_generic_or_valid by metis
  then show ?thesis using r by blast
qed

lemma customer_info_no_letter:
  "\<not> has_letter n \<Longrightarrow>
   customer_info (Some n) = customer_info (if n = [] then None else Some ''Unknown'')"
  by (simp add: customer_info_def display_name_def nonempty_def)

lemma context_prompt_cong:
  "customer_info a = customer_info b \<Longrightarrow>
   context_prompt cfg (args\<lparr>g_contact_name := a\<rparr>) = context_prompt cfg (args\<lparr>g_contact_name := b\<rparr>)"
  by (simp add: context_prompt_def Let_def cong: option.case_cong if_cong)

lemma messages_no_letter:
  assumes "\<not> has_letter n"
  shows "messages cfg (args\<lparr>g_contact_name := Some n\<rparr>)
       = messages cfg (args\<lparr>g_contact_name := (if n = [] then None else Some ''Unknown'')\<rparr>)"
  using context_prompt_cong [OF customer_info_no_letter [OF assms], of cfg args]
  by (simp add: messages_def)

lemma agent_response_no_letter:
  assumes "\<not> has_letter n"
  shows "agent_response cfg w tr (args\<lparr>g_contact_name := Some n\<rparr>)
       = agent_response cfg w tr (args\<lparr>g_contact_name := (if n = [] then None else Some ''Unknown'')\<rparr>)"
  using messages_no_letter [OF assms, of cfg args]
  by (simp add: agent_response_def)

lemma agent_response_request:
  "snd (agent_response cfg w tr args) = tr
   \<or> snd (agent_response cfg w tr args)
       = tr @ [Chat_Completion (messages cfg args) (g_max_tokens args) (g_temperature args)]"
  by (simp add: agent_response_def Let_def split: sum.splits)

text \<open>
  C8, as stated, fails for the reply generator.  Its guard replaces a name only when the
  name has no letter, so \<open>UNKNOWN\<close>, which equals \<open>unknown\<close> when case is ignored, is
  not replaced by the placeholder: the system prompt of the request to the model says
  \<open>Talking to UNKNOWN.\<close>, and the request differs from the one for \<open>Unknown\<close>.
\<close>

theorem unknown_in_capitals_counterexample:
  "lower ''UNKNOWN'' = ''unknown''
   \<and> snd (agent_response example_config example_world [] (example_args (Some ''UNKNOWN'')))
       = [Chat_Completion (messages example_config (example_args (Some ''UNKNOWN''))) 600 3]
   \<and> contains ''CUSTOMER INFO: Talking to UNKNOWN.''
        (content (hd (messages example_config (example_args (Some ''UNKNOWN'')))))
   \<and> messages example_config (example_args (Some ''UNKNOWN''))
       \<noteq> messages example_config (example_args (Some ''Unknown''))"
  by code_simp

text \<open>
  C8, amended.  A contact name without a letter of \<open>[a-zA-Z]\<close>, or equal to \<open>unknown\<close> in
  any casing, is no valid name: it never personalises the greeting, the background lookup
  stores no name for a contact so named, and the answer handler's greeting is the generic
  one unless it carries a valid name.  What the reply generator shows the model for such
  a name is no valid name either.  A name without a letter is replaced before it reaches
  the prompt: the messages sent to the model, the one thing the model receives, and the
  reply are those for the name \<open>Unknown\<close> (for no name at all when the name is empty).
\<close>

theorem placeholder_name_treated_as_absent:
  assumes "\<not> has_letter n \<or> lower n = ''unknown''"
  shows "greeting_for (Some n) = generic_greeting
       \<and> \<not> is_valid_name (Some n)
       \<and> \<not> is_valid_name (display_name (Some n))
       \<and> (search_contact_by_phone w tr from_number = Some \<lparr>c_id = Some i, c_name = Some n\<rparr> \<and> i \<noteq> 0
            \<longrightarrow> contact_name (cur (fst (background_freshdesk_lookup w calls u from_number tr)) u) = None)
       \<and> (\<exists>g ws cid. fst (handle_voice_answer cfg w calls req in_time)
                        = Ncco [Talk g False, Connect_Websocket ws cid]
             \<and> (g = generic_greeting
                  \<or> (\<exists>m. is_valid_name (Some m)
                        \<and> g = ''Hello '' @ m
                               @ ''. Welcome back to Sandeza support. How can I help you today?'')))
       \<and> (\<not> has_letter n \<longrightarrow>
             messages cfg (args\<lparr>g_contact_name := Some n\<rparr>)
               = messages cfg (args\<lparr>g_contact_name := (if n = [] then None else Some ''Unknown'')\<rparr>)
             \<and> agent_response cfg w tr (args\<lparr>g_contact_name := Some n\<rparr>)
               = agent_response cfg w tr
                   (args\<lparr>g_contact_name := (if n = [] then None else Some ''Unknown'')\<rparr>))
       \<and> (snd (agent_response cfg w tr args) = tr
            \<or> snd (agent_response cfg w tr args)
                = tr @ [Chat_Completion (messages cfg args) (g_max_tokens args) (g_temperature args)])"
proof (intro conjI impI)
  show "\<exists>g ws cid. fst (handle_voice_answer cfg w calls req in_time)
                        = Ncco [Talk g False, Connect_Websocket ws cid]
             \<and> (g = generic_greeting
                  \<or> (\<exists>m. is_valid_name (Some m)
                        \<and> g = ''Hello '' @ m
                               @ ''. Welcome back to Sandeza support. How can I help you today?''))"
    by (rule answer_greeting_generic_or_valid)
  show nv: "\<not> is_valid_name (Some n)"
    using assms by (auto simp: is_valid_name_def nonempty_def)
  show "greeting_for (Some n) = generic_greeting"
    using nv by (simp add: greeting_for_def)
  show "\<not> is_valid_name (display_name (Some n))"
    using assms
    by (auto simp: display_name_def is_valid_name_def nonempty_def lower_Unknown)
  show "snd (agent_response cfg w tr args) = tr
            \<or> snd (agent_response cfg w tr args)
                = tr @ [Chat_Completion (messages cfg args) (g_max_tokens args) (g_temperature args)]"
    by (rule agent_response_request)
  {
    assume "search_contact_by_phone w tr from_number = Some \<lparr>c_id = Some i, c_name = Some n\<rparr> \<and> i \<noteq> 0"
    then show "contact_name (cur (fst (background_freshdesk_lookup w calls u from_number tr)) u) = None"
      using nv by (simp add: background_freshdesk_lookup_def Let_def nonzero_def cur_put)
  }
  {
    assume nl: "\<not> has_letter n"
    show "messages cfg (args\<lparr>g_contact_name := Some n\<rparr>)
               = messages cfg (args\<lparr>g_contact_name := (if n = [] then None else Some ''Unknown'')\<rparr>)"
      using nl by (rule messages_no_letter)
    show "agent_response cfg w tr (args\<lparr>g_contact_name := Some n\<rparr>)
               = agent_response cfg w tr
                   (args\<lparr>g_contact_name := (if n = [] then None else Some ''Unknown'')\<rparr>)"
      using nl by (rule agent_response_no_letter)
  }
qed

lemma digits_have_no_letter: "\<not> has_letter ''15551234567''"
  by (simp add: has_letter_def is_ascii_letter_def code_def)

lemma lower_unknown: "lower ''unknown'' = ''unknown''"
  by code_simp

text \<open>A caller named by a phone number, and a caller named \<open>unknown\<close>.\<close>

theorem placeholder_name_treated_as_absent_witness:
  "greeting_for (Some ''15551234567'') = generic_greeting
   \<and> messages example_config (example_args (Some ''15551234567''))
       = messages example_config (example_args (Some ''Unknown''))
   \<and> agent_response example_config example_world [] (example_args (Some ''15551234567''))
       = agent_response example_config example_world [] (example_args (Some ''Unknown''))
   \<and> greeting_for (Some ''unknown'') = generic_greeting
   \<and> \<not> is_valid_name (Some ''unknown'')"
  using placeholder_name_treated_as_absent
          [where n = "''15551234567''" and args = "example_args None" and cfg = example_config
             and w = example_world and tr = "[]"]
        placeholder_name_treated_as_absent [where n = "''unknown''"]
        digits_have_no_letter lower_unknown
  by (simp add: example_args_def)

section \<open>Streaming turn-taking: properties\<close>
lemma run_stream_append:
  "run_stream s (es @ fs) =
     (let (s1, out1) = run_stream s es; (s2, out2) = run_stream s1 fs in (s2, out1 @ out2))"
  by (induction es arbitrary: s) (auto simp: Let_def split: prod.splits)

lemma strip_nonempty: "strip t \<noteq> [] \<Longrightarrow> t \<noteq> []"
  by (auto simp: strip_def lstrip_def rstrip_def)

lemma process_final:
  "process_result s (Some f) True =
     (if strip f = [] then (s, [])
      else (s\<lparr>current_utterance := current_utterance s @ strip f @ '' '',
              final_transcript := final_transcript s @ f @ '' '', silence_timer := Pending\<rparr>, []))"
  using strip_nonempty [of f]
  by (auto simp: process_result_def nonempty_def start_silence_timer_def cancel_silence_timer_def)

lemma run_finals:
  "run_stream s (finals fs) = (s', out) \<Longrightarrow>
     out = []
     \<and> current_utterance s' = current_utterance s @ concat (map (\<lambda>f. f @ '' '') (fragments fs))
     \<and> silence_timer s' = (if fragments fs = [] then silence_timer s else Pending)
     \<and> speech_ended_callback s' = speech_ended_callback s"
proof (induction fs arbitrary: s s' out)
  case Nil
  then show ?case by (simp add: finals_def fragments_def)
next
  case (Cons f fs)
  obtain s1 where s1: "stream_step s (Result (Some f) True) = (s1, [])"
    by (cases "strip f = []") (auto simp: stream_step_def process_final)
  obtain s2 out2 where s2: "run_stream s1 (finals fs) = (s2, out2)"
    by (cases "run_stream s1 (finals fs)")
  have e: "s' = s2" "out = out2"
    using Cons.prems s1 s2 by (auto simp: finals_def)
  note ih = Cons.IH [OF s2]
  show ?case
  proof (cases "strip f = []")
    case True
    then have "s1 = s" using s1 by (simp add: stream_step_def process_final)
    then show ?thesis using ih e True by (simp add: fragments_def)
  next
    case False
    then have "s1 = s\<lparr>current_utterance := current_utterance s @ strip f @ '' '',
              final_transcript := final_transcript s @ f @ '' '', silence_timer := Pending\<rparr>"
      using s1 by (simp add: stream_step_def process_final)
    then show ?thesis using ih e False by (simp add: fragments_def)
  qed
qed


lemma run_elapsed_idle:
  "silence_timer s \<noteq> Pending \<Longrightarrow> run_stream s (replicate k Timer_Elapsed) = (s, [])"
  by (induction k) (auto simp: stream_step_def)

lemma elapse_pending:
  "silence_timer s = Pending \<Longrightarrow>
   stream_step s Timer_Elapsed =
     (if current_utterance s = [] then (s\<lparr>silence_timer := Fired\<rparr>, [])
      else (s\<lparr>silence_timer := Fired, current_utterance := []\<rparr>,
            if speech_ended_callback s then [Speech_Ended (current_utterance s)] else []))"
  by (simp add: stream_step_def on_silence_detected_def Let_def)

lemma run_finals_then_elapse:
  assumes "current_utterance s = []" and "speech_ended_callback s"
  shows "snd (run_stream s (finals fs @ Timer_Elapsed # replicate k Timer_Elapsed))
           = (if fragments fs = [] then []
              else [Speech_Ended (concat (map (\<lambda>f. f @ '' '') (fragments fs)))])
       \<and> current_utterance (fst (run_stream s (finals fs @ Timer_Elapsed # replicate k Timer_Elapsed))) = []"
proof -
  obtain s1 out1 where r1: "run_stream s (finals fs) = (s1, out1)"
    by (cases "run_stream s (finals fs)")
  note f = run_finals [OF r1]
  have cu: "current_utterance s1 = concat (map (\<lambda>f. f @ '' '') (fragments fs))"
    using f assms by simp
  have ne: "fragments fs \<noteq> [] \<Longrightarrow> current_utterance s1 \<noteq> []"
    unfolding cu by (cases "fragments fs") auto
  have em: "fragments fs = [] \<Longrightarrow> current_utterance s1 = []"
    unfolding cu by simp
  obtain s2 out2 where r2: "stream_step s1 Timer_Elapsed = (s2, out2)"
    by (cases "stream_step s1 Timer_Elapsed")
  have s2: "silence_timer s2 \<noteq> Pending \<and> current_utterance s2 = []
      \<and> out2 = (if fragments fs = [] then []
              else [Speech_Ended (concat (map (\<lambda>f. f @ '' '') (fragments fs)))])"
  proof (cases "fragments fs = []")
    case True
    show ?thesis
    proof (cases "silence_timer s1 = Pending")
      case True
      then show ?thesis
        using r2 em \<open>fragments fs = []\<close> by (auto simp: elapse_pending)
    next
      case False
      then show ?thesis
        using r2 em True by (auto simp: stream_step_def)
    qed
  next
    case False
    then have "silence_timer s1 = Pending" using f by simp
    then show ?thesis
      using r2 False ne f assms cu by (auto simp: elapse_pending)
  qed
  have "run_stream s (finals fs @ Timer_Elapsed # replicate k Timer_Elapsed) = (s2, out1 @ out2)"
    using r1 r2 s2 by (simp add: run_stream_append run_elapsed_idle)
  then show ?thesis using s2 f by simp
qed

lemma interim_cancels:
  assumes "strip t \<noteq> []"
  shows "silence_timer (fst (stream_step s (Result (Some t) False))) = No_Timer"
    and "current_utterance (fst (stream_step s (Result (Some t) False))) = current_utterance s"
    and "Speech_Ended x \<notin> set (snd (stream_step s (Result (Some t) False)))"
  using assms strip_nonempty [of t]
  by (auto simp: stream_step_def process_result_def nonempty_def cancel_silence_timer_def)

text \<open>
  C4, as stated, fails.  A final result whose transcript is empty neither extends the
  accumulator nor starts the timer, so silence after it emits nothing; a fragment is
  trimmed before it is appended, so \<open>I need\<close> followed by \<open> help\<close> with a leading blank is
  emitted as \<open>I need help \<close> and not as the fragments each followed by a blank; and a blank
  interim result leaves a pending timer running, so the utterance is emitted after it.
\<close>

theorem blank_results_counterexample:
  "snd (run_stream fresh_streamer (finals [[]] @ [Timer_Elapsed])) = []
   \<and> snd (run_stream fresh_streamer (finals [''I need'', '' help''] @ [Timer_Elapsed]))
       = [Speech_Ended ''I need help '']
   \<and> snd (run_stream fresh_streamer
             [Result (Some ''hi'') True, Result (Some '' '') False, Timer_Elapsed])
       = [Speech_Ended ''hi '']"
  by code_simp

text \<open>
  C4, amended.  Start from an empty accumulator with the speech-ended callback set.  A
  run of final results followed by the silence timer reaching its threshold emits
  exactly one utterance when at least one transcript is not blank: the non-blank
  transcripts, each trimmed and followed by one blank, in order.  Further timer events
  emit nothing more, and the accumulator is empty afterwards.  When every transcript is
  blank nothing is emitted.  An interim result that is not blank leaves no timer pending,
  keeps the accumulator and emits no utterance, and a timer event after it does nothing.
\<close>

theorem silence_timer_emits_fragments_once:
  assumes "current_utterance s = []" and "speech_ended_callback s"
  shows "snd (run_stream s (finals fs @ Timer_Elapsed # replicate k Timer_Elapsed))
           = (if fragments fs = [] then []
              else [Speech_Ended (concat (map (\<lambda>f. f @ '' '') (fragments fs)))])
       \<and> current_utterance (fst (run_stream s (finals fs @ Timer_Elapsed # replicate k Timer_Elapsed))) = []
       \<and> (strip t \<noteq> [] \<longrightarrow>
            silence_timer (fst (stream_step s0 (Result (Some t) False))) = No_Timer
            \<and> current_utterance (fst (stream_step s0 (Result (Some t) False))) = current_utterance s0
            \<and> (\<forall>x. Speech_Ended x \<notin> set (snd (stream_step s0 (Result (Some t) False))))
            \<and> stream_step (fst (stream_step s0 (Result (Some t) False))) Timer_Elapsed
                = (fst (stream_step s0 (Result (Some t) False)), []))"
proof (intro conjI impI allI)
  show "snd (run_stream s (finals fs @ Timer_Elapsed # replicate k Timer_Elapsed))
           = (if fragments fs = [] then []
              else [Speech_Ended (concat (map (\<lambda>f. f @ '' '') (fragments fs)))])"
    using run_finals_then_elapse [OF assms] by blast
  show "current_utterance (fst (run_stream s (finals fs @ Timer_Elapsed # replicate k Timer_Elapsed))) = []"
    using run_finals_then_elapse [OF assms] by blast
next
  assume t: "strip t \<noteq> []"
  show "silence_timer (fst (stream_step s0 (Result (Some t) False))) = No_Timer"
    using t by (rule interim_cancels)
  show "current_utterance (fst (stream_step s0 (Result (Some t) False))) = current_utterance s0"
    using t by (rule interim_cancels)
  show "\<And>x. Speech_Ended x \<notin> set (snd (stream_step s0 (Result (Some t) False)))"
    using t by (rule interim_cancels)
  show "stream_step (fst (stream_step s0 (Result (Some t) False))) Timer_Elapsed
                = (fst (stream_step s0 (Result (Some t) False)), [])"
    using interim_cancels(1) [OF t, of s0] by (simp add: stream_step_def)
qed

lemma fragments_example: "fragments [''I need'', ''help''] = [''I need'', ''help'']"
  by code_simp

theorem silence_timer_emits_fragments_once_witness:
  "snd (run_stream fresh_streamer (finals [''I need'', ''help''] @ Timer_Elapsed # replicate 3 Timer_Elapsed))
     = [Speech_Ended ''I need help '']
   \<and> current_utterance (fst (run_stream fresh_streamer
        (finals [''I need'', ''help''] @ Timer_Elapsed # replicate 3 Timer_Elapsed))) = []
   \<and> silence_timer (fst (stream_step (fst (run_stream fresh_streamer (finals [''I need''])))
        (Result (Some ''and'') False))) = No_Timer"
proof -
  have a: "current_utterance fresh_streamer = []" "speech_ended_callback fresh_streamer"
    by (simp_all add: fresh_streamer_def)
  have b: "strip ''and'' \<noteq> []" by code_simp
  show ?thesis
    using silence_timer_emits_fragments_once
            [OF a, where fs = "[''I need'', ''help'']" and k = 3 and t = "''and''"
               and ?s0.0 = "fst (run_stream fresh_streamer (finals [''I need'']))"]
          b fragments_example
    by simp
qed

section \<open>Turns in flight: properties\<close>
lemma put_other: "u' \<noteq> u \<Longrightarrow> put u f calls u' = calls u'"
  by (simp add: put_def set_call_state_def)

lemma append_history_other: "u' \<noteq> u \<Longrightarrow> append_history calls u r c u' = calls u'"
  by (simp add: append_history_def set_call_state_def get_call_state_def split: option.splits)

lemma get_call_state_other: "u' \<noteq> u \<Longrightarrow> snd (get_call_state calls u) u' = calls u'"
  by (simp add: get_call_state_def split: option.splits)

lemma other_sentiment_stage: "u' \<noteq> u \<Longrightarrow> p_calls (sentiment_stage u p) u' = p_calls p u'"
  by (simp add: sentiment_stage_def put_other split: option.splits)

lemma other_create_stage: "u' \<noteq> u \<Longrightarrow> p_calls (create_stage w u p) u' = p_calls p u'"
  by (simp add: create_stage_def Let_def put_other split: option.splits)

lemma other_use_stage: "u' \<noteq> u \<Longrightarrow> p_calls (use_stage u p) u' = p_calls p u'"
  by (simp add: use_stage_def put_other split: option.splits)

lemma other_resolve_stage: "resolve_stage p = Inr p2 \<Longrightarrow> p_calls p2 = p_calls p"
  by (auto simp: resolve_stage_def split: option.splits sum.splits)

lemma other_name_stage: "u' \<noteq> u \<Longrightarrow> p_calls (name_stage u p) u' = p_calls p u'"
  by (simp add: name_stage_def Let_def put_other split: option.splits)

lemma other_respond_stage: "u' \<noteq> u \<Longrightarrow> fst (snd (respond_stage cfg u p)) u' = p_calls p u'"
  by (simp add: respond_stage_def Let_def put_other)

lemma other_asr_actions:
  assumes "u' \<noteq> u"
  shows "fst (snd (asr_actions cfg w u p)) u' = p_calls p u'"
proof -
  let ?p1 = "use_stage u (create_stage w u (sentiment_stage u p))"
  have 1: "p_calls ?p1 u' = p_calls p u'"
    using assms by (simp add: other_use_stage other_create_stage other_sentiment_stage)
  show ?thesis
  proof (cases "resolve_stage ?p1")
    case (Inl e)
    then show ?thesis using assms 1 by (simp add: asr_actions_def Let_def put_other)
  next
    case (Inr p2)
    then show ?thesis
      using assms 1 other_resolve_stage [OF Inr]
      by (simp add: asr_actions_def Let_def other_respond_stage other_name_stage)
  qed
qed

lemma other_asr_generate:
  "u' \<noteq> u \<Longrightarrow> p_calls (asr_generate cfg w u s calls1 tr) u' = calls1 u'"
  by (simp add: asr_generate_def Let_def append_history_other split: prod.splits)

lemma other_asr_pipeline:
  "u' \<noteq> u \<Longrightarrow> fst (snd (asr_pipeline cfg w u s calls tr)) u' = calls u'"
  by (simp add: asr_pipeline_def Let_def put_other append_history_other other_asr_actions
      other_asr_generate)

lemma other_asr_turn:
  "u' \<noteq> r_uuid req \<Longrightarrow> fst (snd (asr_turn cfg w calls req)) u' = calls u'"
  by (simp add: asr_turn_def Let_def other_asr_pipeline split: prod.splits)

lemma is_processing_cur: "is_processing calls u \<Longrightarrow> processing (cur calls u)"
  by (auto simp: is_processing_def cur_def get_call_state_def split: option.splits)

lemma is_processing_iff:
  "is_processing calls u = processing (cur calls u)"
  by (auto simp: is_processing_def cur_def get_call_state_def default_session_def split: option.splits)

lemma asr_turn_done: "\<not> is_processing (fst (snd (asr_turn cfg w calls req))) (r_uuid req)"
  by (simp add: is_processing_iff asr_turn_def Let_def asr_pipeline_processing split: prod.splits)

lemma asr_admit_dropped:
  assumes "is_processing calls (r_uuid req)"
  shows "asr_admit calls req = (Some (Ncco []), calls)"
proof -
  obtain cs where cs: "calls (r_uuid req) = Some cs" "processing cs"
    using assms by (auto simp: is_processing_def split: option.splits)
  have g: "get_call_state calls (r_uuid req) = (cs, calls)"
    using cs(1) by (rule get_call_state_Some)
  have wl: "wait_for_lookup calls (r_uuid req) cs 0 = (cs, calls)"
    using cs(1) by (rule wait_for_lookup_fixed)
  show ?thesis
    using cs(2) by (simp add: asr_admit_def g wl is_empty_dict_def Let_def)
qed

lemma asr_admit_admitted:
  assumes "\<not> is_processing calls (r_uuid req)"
  shows "asr_admit calls req
           = (None, put (r_uuid req) (\<lambda>cs. cs\<lparr>processing := True\<rparr>) (snd (get_call_state calls (r_uuid req))))"
proof -
  obtain cs0 calls0 where g: "get_call_state calls (r_uuid req) = (cs0, calls0)"
    by (cases "get_call_state calls (r_uuid req)")
  have s: "calls0 (r_uuid req) = Some cs0"
    using get_call_state_snd [of calls "r_uuid req"] g by simp
  have wl: "wait_for_lookup calls0 (r_uuid req) cs0 0 = (cs0, calls0)"
    using s by (rule wait_for_lookup_fixed)
  have "\<not> processing cs0"
    using assms g by (simp add: is_processing_iff cur_def)
  then show ?thesis
    by (simp add: asr_admit_def g wl is_empty_dict_def Let_def)
qed

lemma filter_remove_nth:
  assumes "i < length xs"
  shows "length (filter P (remove_nth i xs)) = length (filter P xs) - (if P (xs ! i) then 1 else 0)"
proof -
  have e: "xs = take i xs @ xs ! i # drop (Suc i) xs"
    using assms by (rule id_take_nth_drop)
  have "length (filter P xs) = length (filter P (take i xs @ xs ! i # drop (Suc i) xs))"
    by (rule arg_cong [where f = "\<lambda>z. length (filter P z)", OF e])
  also have "\<dots> = length (filter P (take i xs)) + (if P (xs ! i) then 1 else 0)
        + length (filter P (drop (Suc i) xs))"
    by simp
  finally show ?thesis by (simp add: remove_nth_def)
qed

lemma batch_step_inv:
  assumes inv: "\<forall>u. in_flight st u = (if is_processing (b_calls st) u then 1 else 0)"
  shows "\<forall>u. in_flight (batch_step cfg w st ev) u
               = (if is_processing (b_calls (batch_step cfg w st ev)) u then 1 else 0)"
proof (cases ev)
  case (Arrive req)
  show ?thesis
  proof (cases "is_processing (b_calls st) (r_uuid req)")
    case True
    then show ?thesis
      using inv Arrive by (simp add: batch_step_def asr_admit_dropped in_flight_def)
  next
    case False
    let ?c = "put (r_uuid req) (\<lambda>cs. cs\<lparr>processing := True\<rparr>) (snd (get_call_state (b_calls st) (r_uuid req)))"
    have st': "batch_step cfg w st ev = st\<lparr>b_calls := ?c, b_pending := b_pending st @ [req]\<rparr>"
      using Arrive False by (simp add: batch_step_def asr_admit_admitted)
    have here: "is_processing ?c (r_uuid req)"
      by (simp add: is_processing_iff cur_put)
    have there: "\<And>u. u \<noteq> r_uuid req \<Longrightarrow> is_processing ?c u = is_processing (b_calls st) u"
      by (simp add: is_processing_def put_other get_call_state_other)
    have zero: "in_flight st (r_uuid req) = 0"
      using inv False by simp
    show ?thesis
    proof
      fix u
      show "in_flight (batch_step cfg w st ev) u
               = (if is_processing (b_calls (batch_step cfg w st ev)) u then 1 else 0)"
      proof (cases "u = r_uuid req")
        case True
        then show ?thesis using here zero by (simp add: st' in_flight_def)
      next
        case False
        then show ?thesis using there [OF False] inv by (auto simp: st' in_flight_def)
      qed
    qed
  qed
next
  case (Complete i)
  show ?thesis
  proof (cases "i < length (b_pending st)")
    case False
    then show ?thesis using inv Complete by (simp add: batch_step_def)
  next
    case True
    let ?req = "b_pending st ! i"
    let ?c = "fst (snd (asr_turn cfg w (b_calls st) ?req))"
    have pend: "b_pending (batch_step cfg w st ev) = remove_nth i (b_pending st)"
      and calls: "b_calls (batch_step cfg w st ev) = ?c"
      using Complete True by (simp_all add: batch_step_def Let_def split: prod.splits)
    have one: "in_flight st (r_uuid ?req) \<ge> 1"
      using True by (auto simp: in_flight_def filter_empty_conv Suc_le_eq intro!: nth_mem)
    then have one': "in_flight st (r_uuid ?req) = 1"
      using inv by (auto split: if_splits)
    show ?thesis
    proof
      fix u
      have cnt: "in_flight (batch_step cfg w st ev) u
          = in_flight st u - (if r_uuid ?req = u then 1 else 0)"
        using filter_remove_nth [OF True, of "\<lambda>req. r_uuid req = u"]
        by (simp add: in_flight_def pend)
      show "in_flight (batch_step cfg w st ev) u
               = (if is_processing (b_calls (batch_step cfg w st ev)) u then 1 else 0)"
      proof (cases "u = r_uuid ?req")
        case True
        then show ?thesis
          using cnt one' asr_turn_done [of cfg w "b_calls st" ?req] by (simp add: calls)
      next
        case False
        then have "is_processing ?c u = is_processing (b_calls st) u"
          by (simp add: is_processing_def other_asr_turn)
        then show ?thesis using cnt False inv by (auto simp: calls)
      qed
    qed
  qed
qed

lemma batch_run_inv:
  "\<forall>u. in_flight st u = (if is_processing (b_calls st) u then 1 else 0) \<Longrightarrow>
   \<forall>u. in_flight (batch_run cfg w st evs) u
         = (if is_processing (b_calls (batch_run cfg w st evs)) u then 1 else 0)"
proof (induction evs arbitrary: st)
  case Nil
  then show ?case by simp
next
  case (Cons ev evs)
  have "\<forall>u. in_flight (batch_step cfg w st ev) u
               = (if is_processing (b_calls (batch_step cfg w st ev)) u then 1 else 0)"
    using Cons.prems by (rule batch_step_inv)
  from Cons.IH [OF this] show ?case by simp
qed

lemma arrive_dropped:
  "is_processing (b_calls st) (r_uuid req) \<Longrightarrow>
   batch_step cfg w st (Arrive req) = st\<lparr>b_responses := b_responses st @ [(r_uuid req, Ncco [])]\<rparr>"
  by (simp add: batch_step_def asr_admit_dropped)

lemma length_remove_nth: "i < length xs \<Longrightarrow> length (remove_nth i xs) = length xs - 1"
  by (simp add: remove_nth_def)

lemma resume_inv:
  assumes "length (coroutines st) = (if processing_ai st then 1 else 0)"
  shows "length (coroutines (resume cfg w st i)) = (if processing_ai (resume cfg w st i) then 1 else 0)"
proof (cases "i < length (coroutines st)")
  case False
  then show ?thesis using assms by (simp add: resume_def)
next
  case True
  then have l: "length (coroutines st) = 1" "processing_ai st"
    using assms by (auto split: if_splits)
  show ?thesis
    using True l
    by (auto simp: resume_def Let_def finish_def update_nth_def remove_nth_def length_Suc_conv
        split: stage.splits prod.splits)
qed

lemma app_step_inv:
  assumes "length (coroutines st) = (if processing_ai st then 1 else 0)" and "ev \<noteq> Ws_Connect"
  shows "length (coroutines (app_step cfg w st ev))
           = (if processing_ai (app_step cfg w st ev) then 1 else 0)"
proof (cases ev)
  case Ws_Connect
  then show ?thesis using assms by simp
next
  case (Ws_Text x)
  then show ?thesis using assms by (auto simp: app_step_def split: if_splits)
next
  case (On_Speech_Ended t)
  then show ?thesis using assms by (auto simp: app_step_def on_speech_ended_def split: if_splits)
next
  case (Resume i)
  then show ?thesis using resume_inv [OF assms(1)] by (simp add: app_step_def)
next
  case (Run_Executor i)
  then show ?thesis
    using assms by (auto simp: app_step_def run_executor_def Let_def split: prod.splits if_splits)
qed

lemma app_run_inv:
  "length (coroutines st) = (if processing_ai st then 1 else 0) \<Longrightarrow> Ws_Connect \<notin> set evs \<Longrightarrow>
   length (coroutines (app_run cfg w st evs)) = (if processing_ai (app_run cfg w st evs) then 1 else 0)"
proof (induction evs arbitrary: st)
  case Nil
  then show ?case by simp
next
  case (Cons ev evs)
  have "length (coroutines (app_step cfg w st ev))
           = (if processing_ai (app_step cfg w st ev) then 1 else 0)"
    using Cons.prems by (intro app_step_inv) auto
  moreover have "Ws_Connect \<notin> set evs" using Cons.prems by simp
  ultimately show ?case using Cons.IH by simp
qed

text \<open>
  C2, as stated, fails in streaming mode, where the flag is one module-level variable
  that every accepted connection resets.  The call \<open>abc\<close> is being answered (its
  coroutine is suspended in the reply generator, so nothing has been spoken) when a
  connection is accepted again for the same call: the flag is false although a turn is
  in flight, the next utterance is scheduled, and two pipelines for \<open>abc\<close> wait for
  their replies at the same time.
\<close>

theorem reconnect_counterexample:
  "length (coroutines (app_run example_config example_world (app_start Map.empty)
      [Ws_Connect, Ws_Text (Some ''abc''), On_Speech_Ended ''my internet is down '', Resume 0,
       Ws_Connect])) = 1
   \<and> \<not> processing_ai (app_run example_config example_world (app_start Map.empty)
      [Ws_Connect, Ws_Text (Some ''abc''), On_Speech_Ended ''my internet is down '', Resume 0,
       Ws_Connect])
   \<and> map co_uuid (coroutines (app_run example_config example_world (app_start Map.empty)
      [Ws_Connect, Ws_Text (Some ''abc''), On_Speech_Ended ''my internet is down '', Resume 0,
       Ws_Connect, Ws_Text (Some ''abc''), On_Speech_Ended ''hello '', Resume 1]))
     = [Some ''abc'', Some ''abc'']
   \<and> map co_stage (coroutines (app_run example_config example_world (app_start Map.empty)
      [Ws_Connect, Ws_Text (Some ''abc''), On_Speech_Ended ''my internet is down '', Resume 0,
       Ws_Connect, Ws_Text (Some ''abc''), On_Speech_Ended ''hello '', Resume 1]))
     = [Awaiting_Reply, Awaiting_Reply]"
  by code_simp

text \<open>
  C2, amended.  Batch mode: in every interleaving of arriving webhooks and finishing
  turns, a call has a turn in flight exactly while its session's \<open>processing\<close> is true,
  and never more than one; a handler that finds \<open>processing\<close> true at its guard answers
  with the empty action list and changes nothing; one that finds it false sets it before
  its turn runs, and the turn clears it with its response.  Streaming mode: the flag is
  one flag for the whole process; as long as no further connection is accepted, a
  pipeline is in flight exactly while the flag is true, and never more than one; the
  callback returns without scheduling when the flag is true, and otherwise sets it and
  schedules one pipeline.
\<close>

theorem one_turn_in_flight:
  assumes "\<forall>u. in_flight st u = (if is_processing (b_calls st) u then 1 else 0)"
    and "length (coroutines a) = (if processing_ai a then 1 else 0)"
    and "Ws_Connect \<notin> set aevs"
  shows "(\<forall>u. in_flight (batch_run cfg w st evs) u
               = (if is_processing (b_calls (batch_run cfg w st evs)) u then 1 else 0))
       \<and> (is_processing calls (r_uuid req) \<longrightarrow>
             handle_voice_asr cfg w calls req = (Ncco [], calls, []))
       \<and> (is_processing (b_calls st) (r_uuid req) \<longrightarrow>
             batch_step cfg w st (Arrive req)
               = st\<lparr>b_responses := b_responses st @ [(r_uuid req, Ncco [])]\<rparr>)
       \<and> (\<not> is_processing calls (r_uuid req) \<longrightarrow>
             fst (asr_admit calls req) = None
             \<and> is_processing (snd (asr_admit calls req)) (r_uuid req)
             \<and> \<not> is_processing (fst (snd (asr_turn cfg w (snd (asr_admit calls req)) req))) (r_uuid req))
       \<and> length (coroutines (app_run cfg w a aevs))
           = (if processing_ai (app_run cfg w a aevs) then 1 else 0)
       \<and> (processing_ai a0 \<longrightarrow> app_step cfg w a0 (On_Speech_Ended t) = a0)
       \<and> (\<not> processing_ai a0 \<and> main_loop_running a0 \<longrightarrow>
             processing_ai (app_step cfg w a0 (On_Speech_Ended t))
             \<and> coroutines (app_step cfg w a0 (On_Speech_Ended t))
                 = coroutines a0 @ [\<lparr>co_transcript = t, co_uuid = current_call_uuid a0,
                                     co_stage = Scheduled, co_reply = [], co_region = None\<rparr>])"
proof (intro conjI impI)
  show "\<forall>u. in_flight (batch_run cfg w st evs) u
               = (if is_processing (b_calls (batch_run cfg w st evs)) u then 1 else 0)"
    using assms(1) by (rule batch_run_inv)
  show "length (coroutines (app_run cfg w a aevs))
           = (if processing_ai (app_run cfg w a aevs) then 1 else 0)"
    using assms(2,3) by (rule app_run_inv)
next
  assume "is_processing calls (r_uuid req)"
  then show "handle_voice_asr cfg w calls req = (Ncco [], calls, [])"
    by (simp add: handle_voice_asr_def asr_admit_dropped)
next
  assume "is_processing (b_calls st) (r_uuid req)"
  then show "batch_step cfg w st (Arrive req)
               = st\<lparr>b_responses := b_responses st @ [(r_uuid req, Ncco [])]\<rparr>"
    by (rule arrive_dropped)
next
  assume n: "\<not> is_processing calls (r_uuid req)"
  show "fst (asr_admit calls req) = None"
    using n by (simp add: asr_admit_admitted)
  show "is_processing (snd (asr_admit calls req)) (r_uuid req)"
    using n by (simp add: asr_admit_admitted is_processing_iff cur_put)
  show "\<not> is_processing (fst (snd (asr_turn cfg w (snd (asr_admit calls req)) req))) (r_uuid req)"
    by (rule asr_turn_done)
next
  assume "processing_ai a0"
  then show "app_step cfg w a0 (On_Speech_Ended t) = a0"
    by (simp add: app_step_def on_speech_ended_def)
next
  assume "\<not> processing_ai a0 \<and> main_loop_running a0"
  then show "processing_ai (app_step cfg w a0 (On_Speech_Ended t))"
    and "coroutines (app_step cfg w a0 (On_Speech_Ended t))
                 = coroutines a0 @ [\<lparr>co_transcript = t, co_uuid = current_call_uuid a0,
                                     co_stage = Scheduled, co_reply = [], co_region = None\<rparr>]"
    by (simp_all add: app_step_def on_speech_ended_def)
qed


theorem one_turn_in_flight_witness:
  "in_flight (batch_run example_config example_world (batch_start Map.empty)
      [Arrive (spoken ''my internet is down''), Arrive (spoken ''hello again'')]) (Some ''abc'') = 1
   \<and> length (coroutines (app_run example_config example_world
        (app_run example_config example_world (app_start Map.empty)
           [Ws_Connect, Ws_Text (Some ''abc'')])
        [On_Speech_Ended ''my internet is down '', Resume 0, On_Speech_Ended ''hello ''])) = 1"
proof -
  let ?a = "app_run example_config example_world (app_start Map.empty)
              [Ws_Connect, Ws_Text (Some ''abc'')]"
  have h1: "\<forall>u. in_flight (batch_start Map.empty) u
                 = (if is_processing (b_calls (batch_start Map.empty)) u then 1 else 0)"
    by (simp add: in_flight_def batch_start_def is_processing_def)
  have h2: "length (coroutines ?a) = (if processing_ai ?a then 1 else 0)"
    by (simp add: app_step_def app_start_def truthy_def nonempty_def)
  have h3: "Ws_Connect \<notin> set [On_Speech_Ended ''my internet is down '', Resume 0,
                                 On_Speech_Ended ''hello '']"
    by simp
  have p1: "is_processing (b_calls (batch_run example_config example_world (batch_start Map.empty)
      [Arrive (spoken ''my internet is down''), Arrive (spoken ''hello again'')])) (Some ''abc'')"
    by code_simp
  have p2: "processing_ai (app_run example_config example_world ?a
        [On_Speech_Ended ''my internet is down '', Resume 0, On_Speech_Ended ''hello ''])"
    by code_simp
  note t = one_turn_in_flight [OF h1 h2 h3, where cfg = example_config and w = example_world
      and evs = "[Arrive (spoken ''my internet is down''), Arrive (spoken ''hello again'')]"]
  have "in_flight (batch_run example_config example_world (batch_start Map.empty)
      [Arrive (spoken ''my internet is down''), Arrive (spoken ''hello again'')]) (Some ''abc'') = 1"
    using t p1 by presburger
  moreover have "length (coroutines (app_run example_config example_world ?a
        [On_Speech_Ended ''my internet is down '', Resume 0, On_Speech_Ended ''hello ''])) = 1"
    using t p2 by presburger
  ultimately show ?thesis by blast
qed


end
